theory Spec2Isabelle
  imports Complex_Main
begin

section \<open>Python values, exceptions and the built-in operations the worker uses\<close>

text \<open>
  The worker handles JSON-derived Python values throughout. Dictionaries keep their
  insertion order, so a \<open>dict\<close> is an association list; \<open>json.loads\<close> and
  \<open>response.json()\<close> produce dictionaries with distinct keys, and lookup takes the first
  entry of a key. Floats are carried by a rational (NaN and the infinities are left out).
\<close>

datatype pyval =
    PNone
  | PBool bool
  | PInt int
  | PFloat rat
  | PStr string
  | PList "pyval list"
  | PDict "(string \<times> pyval) list"

text \<open>
  An exception is its class and the text \<open>str(e)\<close>. \<open>JSONDecodeError\<close> is a subclass of
  \<open>ValueError\<close>, and so is \<open>binascii.Error\<close>; the two websocket classes and
  \<open>RequestException\<close> are subclasses of \<open>Exception\<close> only. \<open>RequestsTimeout\<close> is
  \<open>requests.Timeout\<close>, a \<open>RequestException\<close>. \<open>RequestsJSONDecodeError\<close> is what
  \<open>response.json()\<close> raises: it derives from both \<open>RequestException\<close> and
  \<open>json.JSONDecodeError\<close>.
\<close>

datatype exn_class =
    AttributeError
  | TypeError
  | ValueError
  | JSONDecodeError
  | BinasciiError
  | RequestException
  | RequestsTimeout
  | RequestsJSONDecodeError
  | WebSocketTimeoutException
  | WebSocketConnectionClosedException
  | RuntimeError
  | KeyError
  | ImportError
  | OtherException

datatype exn = Exn exn_class string

fun exn_class_of :: "exn \<Rightarrow> exn_class" where
  "exn_class_of (Exn c m) = c"

fun exn_str :: "exn \<Rightarrow> string" where
  "exn_str (Exn c m) = m"

definition is_JSONDecodeError :: "exn \<Rightarrow> bool" where
  "is_JSONDecodeError e \<longleftrightarrow> exn_class_of e \<in> {JSONDecodeError, RequestsJSONDecodeError}"

definition is_ValueError :: "exn \<Rightarrow> bool" where
  "is_ValueError e \<longleftrightarrow> exn_class_of e \<in> {ValueError, BinasciiError} \<or> is_JSONDecodeError e"

definition is_RequestException :: "exn \<Rightarrow> bool" where
  "is_RequestException e \<longleftrightarrow> exn_class_of e \<in> {RequestException, RequestsTimeout, RequestsJSONDecodeError}"

text \<open>
  What the interpreter and the standard library supply and the repository does not
  define: \<open>json.loads\<close> (a value, or the exception it raises), the text \<open>str(v)\<close> of a
  float, a list or a dict, the one-character strings a \<open>str\<close> yields when it is iterated,
  \<open>base64.b64decode(s)\<close> (the bytes, or the exception it raises),
  \<open>base64.b64encode(b).decode("utf-8")\<close>, \<open>os.path.splitext(name)[1]\<close>, and
  \<open>time.sleep\<close> for a length of \<open>d\<close> milliseconds that is not negative.
  Strings are byte sequences here (UTF-8), so only \<open>characters\<close> knows code points.
\<close>

record python =
  json_loads :: "string \<Rightarrow> exn + pyval"
  repr :: "pyval \<Rightarrow> string"
  characters :: "string \<Rightarrow> string list"
  b64decode :: "string \<Rightarrow> exn + string"
  b64encode :: "string \<Rightarrow> string"
  splitext_ext :: "string \<Rightarrow> string"
  sleep_ms :: "int \<Rightarrow> exn option"

text \<open>Sequencing of steps that may raise: the first exception ends the sequence.\<close>

definition and_then :: "exn + 'a \<Rightarrow> ('a \<Rightarrow> exn + 'b) \<Rightarrow> exn + 'b" where
  "and_then r f = (case r of Inl e \<Rightarrow> Inl e | Inr x \<Rightarrow> f x)"

fun type_name :: "pyval \<Rightarrow> string" where
  "type_name PNone = ''NoneType''"
| "type_name (PBool b) = ''bool''"
| "type_name (PInt i) = ''int''"
| "type_name (PFloat q) = ''float''"
| "type_name (PStr s) = ''str''"
| "type_name (PList xs) = ''list''"
| "type_name (PDict kvs) = ''dict''"

definition attribute_error :: "pyval \<Rightarrow> string \<Rightarrow> exn" where
  "attribute_error v a =
     Exn AttributeError ([CHR 0x27] @ type_name v @ ''' object has no attribute '' @ [CHR 0x27] @ a @ [CHR 0x27])"

text \<open>\<open>v.get(k, default)\<close>: only a dict has the method.\<close>

fun py_get :: "pyval \<Rightarrow> string \<Rightarrow> pyval \<Rightarrow> exn + pyval" where
  "py_get (PDict kvs) k dflt = Inr (case map_of kvs k of None \<Rightarrow> dflt | Some v \<Rightarrow> v)"
| "py_get v k dflt = Inl (attribute_error v ''get'')"

text \<open>Truth value of a value in a condition (\<open>if v\<close>, \<open>not v\<close>).\<close>

fun truthy :: "pyval \<Rightarrow> bool" where
  "truthy PNone = False"
| "truthy (PBool b) = b"
| "truthy (PInt i) = (i \<noteq> 0)"
| "truthy (PFloat q) = (q \<noteq> 0)"
| "truthy (PStr s) = (s \<noteq> [])"
| "truthy (PList xs) = (xs \<noteq> [])"
| "truthy (PDict kvs) = (kvs \<noteq> [])"

text \<open>Decimal text of an integer, as \<open>str\<close> gives it.\<close>

fun decimal :: "nat \<Rightarrow> string" where
  "decimal n =
     (if n < 10 then [char_of (48 + n)] else decimal (n div 10) @ [char_of (48 + n mod 10)])"

definition str_int :: "int \<Rightarrow> string" where
  "str_int i = (if i < 0 then ''-'' @ decimal (nat (- i)) else decimal (nat i))"

text \<open>\<open>str(v)\<close>, the text an f-string puts in for \<open>{v}\<close>.\<close>

fun py_str :: "python \<Rightarrow> pyval \<Rightarrow> string" where
  "py_str py PNone = ''None''"
| "py_str py (PBool b) = (if b then ''True'' else ''False'')"
| "py_str py (PInt i) = str_int i"
| "py_str py (PStr s) = s"
| "py_str py v = repr py v"

text \<open>
  The other built-in operations the worker applies to JSON-derived values, each with the
  \<open>TypeError\<close>, \<open>AttributeError\<close> or \<open>KeyError\<close> it raises on a value of the wrong type
  (texts as CPython 3.12 words them).
\<close>

definition quoted :: "string \<Rightarrow> string" where
  "quoted s = [CHR 0x27] @ s @ [CHR 0x27]"

definition type_error :: "string \<Rightarrow> exn" where
  "type_error text = Exn TypeError text"

fun starts_with :: "string \<Rightarrow> string \<Rightarrow> bool" where
  "starts_with [] s = True"
| "starts_with (c # cs) [] = False"
| "starts_with (c # cs) (d # ds) = (c = d \<and> starts_with cs ds)"

text \<open>\<open>p in s\<close> for two strings: \<open>p\<close> occurs in \<open>s\<close> as a contiguous part.\<close>

fun is_substring :: "string \<Rightarrow> string \<Rightarrow> bool" where
  "is_substring p [] = (p = [])"
| "is_substring p (c # cs) = (starts_with p (c # cs) \<or> is_substring p cs)"

text \<open>\<open>k in v\<close> for a string \<open>k\<close>: a key of a dict, an element of a list, a part of a string.\<close>

fun py_contains :: "pyval \<Rightarrow> string \<Rightarrow> exn + bool" where
  "py_contains (PDict kvs) k = Inr (map_of kvs k \<noteq> None)"
| "py_contains (PList xs) k = Inr (PStr k \<in> set xs)"
| "py_contains (PStr s) k = Inr (is_substring k s)"
| "py_contains v k =
     Inl (type_error (''argument of type '' @ quoted (type_name v) @ '' is not iterable''))"

text \<open>\<open>v[k]\<close> for a string \<open>k\<close>.\<close>

fun py_getitem :: "pyval \<Rightarrow> string \<Rightarrow> exn + pyval" where
  "py_getitem (PDict kvs) k =
     (case map_of kvs k of
        None \<Rightarrow> Inl (Exn KeyError (quoted k))
      | Some v \<Rightarrow> Inr v)"
| "py_getitem (PList xs) k = Inl (type_error ''list indices must be integers or slices, not str'')"
| "py_getitem (PStr s) k =
     Inl (type_error (''string indices must be integers, not '' @ quoted ''str''))"
| "py_getitem v k = Inl (type_error (quoted (type_name v) @ '' object is not subscriptable''))"

text \<open>\<open>v.items()\<close>.\<close>

fun py_items :: "pyval \<Rightarrow> exn + (string \<times> pyval) list" where
  "py_items (PDict kvs) = Inr kvs"
| "py_items v = Inl (attribute_error v ''items'')"

text \<open>The values \<open>for x in v\<close> runs through.\<close>

fun py_iter :: "python \<Rightarrow> pyval \<Rightarrow> exn + pyval list" where
  "py_iter py (PList xs) = Inr xs"
| "py_iter py (PDict kvs) = Inr (map (\<lambda>kv. PStr (fst kv)) kvs)"
| "py_iter py (PStr s) = Inr (map PStr (characters py s))"
| "py_iter py v = Inl (type_error (quoted (type_name v) @ '' object is not iterable''))"

text \<open>\<open>len(v)\<close>.\<close>

fun py_len :: "python \<Rightarrow> pyval \<Rightarrow> exn + int" where
  "py_len py (PList xs) = Inr (int (length xs))"
| "py_len py (PDict kvs) = Inr (int (length kvs))"
| "py_len py (PStr s) = Inr (int (length (characters py s)))"
| "py_len py v = Inl (type_error (''object of type '' @ quoted (type_name v) @ '' has no len()''))"

text \<open>\<open>v += t\<close> for a string \<open>t\<close>: concatenation for a string, \<open>extend\<close> for a list.\<close>

fun py_iadd_str :: "python \<Rightarrow> pyval \<Rightarrow> string \<Rightarrow> exn + pyval" where
  "py_iadd_str py (PStr s) t = Inr (PStr (s @ t))"
| "py_iadd_str py (PList xs) t = Inr (PList (xs @ map PStr (characters py t)))"
| "py_iadd_str py v t =
     Inl (type_error (''unsupported operand type(s) for +=: '' @ quoted (type_name v)
                      @ '' and '' @ quoted ''str''))"

text \<open>\<open>sep.join(parts)\<close>.\<close>

fun join :: "string \<Rightarrow> string list \<Rightarrow> string" where
  "join sep [] = []"
| "join sep [x] = x"
| "join sep (x # y # ys) = x @ sep @ join sep (y # ys)"


section \<open>Input validation: \<open>validate_input\<close>\<close>

text \<open>
  The loop over \<open>images\<close>: the first entry that is not a dict, or lacks one of the keys
  \<open>name\<close> and \<open>image\<close>, ends validation with its message.
\<close>

fun check_images :: "pyval list \<Rightarrow> string option" where
  "check_images [] = None"
| "check_images (PDict img # rest) =
     (if map_of img ''name'' = None \<or> map_of img ''image'' = None
      then Some '''images' must contain objects with 'name' and 'image' keys''
      else check_images rest)"
| "check_images (img # rest) = Some ''Each image must be an object''"

text \<open>
  The part of \<open>validate_input\<close> after the string case: \<open>job_input.get\<close> raises on
  anything but a dict. The result is the pair \<open>(validated_data, error_message)\<close>.
\<close>

definition validate_fields :: "pyval \<Rightarrow> exn + (pyval \<times> pyval)" where
  "validate_fields job_input =
     and_then (py_get job_input ''workflow'' PNone) (\<lambda>workflow.
       case workflow of
         PNone \<Rightarrow> Inr (PNone, PStr ''Missing 'workflow' parameter'')
       | PDict nodes \<Rightarrow>
           if length nodes = 0 then Inr (PNone, PStr '''workflow' cannot be empty'')
           else
             and_then (py_get job_input ''images'' PNone) (\<lambda>images.
               case images of
                 PNone \<Rightarrow> Inr (PDict [(''workflow'', workflow), (''images'', images)], PNone)
               | PList imgs \<Rightarrow>
                   (case check_images imgs of
                      Some msg \<Rightarrow> Inr (PNone, PStr msg)
                    | None \<Rightarrow> Inr (PDict [(''workflow'', workflow), (''images'', images)], PNone))
               | _ \<Rightarrow> Inr (PNone, PStr '''images' must be a list''))
       | _ \<Rightarrow> Inr (PNone, PStr '''workflow' must be a JSON object''))"

definition validate_input :: "python \<Rightarrow> pyval \<Rightarrow> exn + (pyval \<times> pyval)" where
  "validate_input py job_input =
     (case job_input of
        PNone \<Rightarrow> Inr (PNone, PStr ''Please provide input'')
      | PStr s \<Rightarrow>
          (case json_loads py s of
             Inl e \<Rightarrow>
               if is_JSONDecodeError e then Inr (PNone, PStr ''Invalid JSON format in input'')
               else Inl e
           | Inr parsed \<Rightarrow> validate_fields parsed)
      | _ \<Rightarrow> validate_fields job_input)"


text \<open>
  The vocabulary of the claims about validation: the fault of an image entry and of a job
  input that is an object, each with the message it is rejected with, and the pair
  \<open>(validated_data, error_message)\<close> that validation owes such an input.
\<close>

definition image_fault :: "pyval \<Rightarrow> string option" where
  "image_fault img =
     (case img of
        PDict d \<Rightarrow>
          if map_of d ''name'' \<noteq> None \<and> map_of d ''image'' \<noteq> None then None
          else Some '''images' must contain objects with 'name' and 'image' keys''
      | _ \<Rightarrow> Some ''Each image must be an object'')"

definition input_fault :: "(string \<times> pyval) list \<Rightarrow> string option" where
  "input_fault job_input =
     (case map_of job_input ''workflow'' of
        None \<Rightarrow> Some ''Missing 'workflow' parameter''
      | Some PNone \<Rightarrow> Some ''Missing 'workflow' parameter''
      | Some (PDict nodes) \<Rightarrow>
          if nodes = [] then Some '''workflow' cannot be empty''
          else
            (case map_of job_input ''images'' of
               None \<Rightarrow> None
             | Some PNone \<Rightarrow> None
             | Some (PList imgs) \<Rightarrow>
                 (case List.find (\<lambda>img. image_fault img \<noteq> None) imgs of
                    None \<Rightarrow> None
                  | Some img \<Rightarrow> image_fault img)
             | Some _ \<Rightarrow> Some '''images' must be a list'')
      | Some _ \<Rightarrow> Some '''workflow' must be a JSON object'')"

definition verdict :: "(string \<times> pyval) list \<Rightarrow> pyval \<times> pyval" where
  "verdict job_input =
     (case input_fault job_input of
        Some msg \<Rightarrow> (PNone, PStr msg)
      | None \<Rightarrow>
          (PDict [(''workflow'', case map_of job_input ''workflow'' of None \<Rightarrow> PNone | Some v \<Rightarrow> v),
                  (''images'', case map_of job_input ''images'' of None \<Rightarrow> PNone | Some v \<Rightarrow> v)],
           PNone))"


section \<open>Readiness prober: \<open>check_server\<close>\<close>

text \<open>
  One call of \<open>requests.get(url, timeout=5)\<close> either yields a response with a status
  code or raises. The environment is an oracle giving the outcome of the request of
  attempt \<open>i\<close>.
\<close>

datatype http_result = Response int | Get_raised exn

text \<open>
  The \<open>try\<close> of one attempt: \<open>Inr True\<close> is \<open>return True\<close>, for \<open>status_code == 200\<close> only;
  \<open>Inr False\<close> is falling through to the sleep, after another status or after an
  exception that one of the two \<open>except\<close> clauses names (\<open>requests.Timeout\<close> is a
  \<open>RequestException\<close>); any other exception leaves the function.
\<close>

definition check_attempt :: "http_result \<Rightarrow> exn + bool" where
  "check_attempt r =
     (case r of
        Response status_code \<Rightarrow> Inr (status_code = 200)
      | Get_raised e \<Rightarrow> if is_RequestException e then Inr False else Inl e)"

text \<open>
  \<open>time.sleep(delay / 1000)\<close> for a delay in milliseconds: a negative length is a
  \<open>ValueError\<close>; what the platform does with a length that is not negative (it raises
  \<open>OverflowError\<close> beyond the range of its clock) is the interpreter's \<open>sleep_ms\<close>.
\<close>

definition time_sleep :: "python \<Rightarrow> int \<Rightarrow> exn option" where
  "time_sleep py delay =
     (if delay < 0 then Some (Exn ValueError ''sleep length must be non-negative'')
      else sleep_ms py delay)"

text \<open>
  \<open>for i in range(retries)\<close>: the fourth argument is the attempt number \<open>i\<close>, the fifth the
  number of attempts still to run. An attempt that does not return sleeps, outside the
  \<open>try\<close>, and the loop goes to the next attempt. After the loop the result is \<open>False\<close>.
\<close>

fun check_server_from ::
  "python \<Rightarrow> (nat \<Rightarrow> http_result) \<Rightarrow> int \<Rightarrow> nat \<Rightarrow> nat \<Rightarrow> exn + bool" where
  "check_server_from py get delay i 0 = Inr False"
| "check_server_from py get delay i (Suc k) =
     (case check_attempt (get i) of
        Inl e \<Rightarrow> Inl e
      | Inr True \<Rightarrow> Inr True
      | Inr False \<Rightarrow>
          (case time_sleep py delay of
             Some e \<Rightarrow> Inl e
           | None \<Rightarrow> check_server_from py get delay (Suc i) k))"

text \<open>\<open>retries\<close> is a Python int; \<open>range(retries)\<close> is empty when it is not positive.\<close>

definition check_server :: "python \<Rightarrow> (nat \<Rightarrow> http_result) \<Rightarrow> int \<Rightarrow> int \<Rightarrow> exn + bool" where
  "check_server py get retries delay = check_server_from py get delay 0 (nat retries)"

text \<open>
  The vocabulary of the claim about the prober: a failed attempt is a response with a
  status other than 200, or a \<open>RequestException\<close> (a timeout is one); a fatal attempt is an
  exception of another class, which no clause catches.
\<close>

definition failed_attempt :: "http_result \<Rightarrow> bool" where
  "failed_attempt r \<longleftrightarrow>
     (case r of Response status_code \<Rightarrow> status_code \<noteq> 200 | Get_raised e \<Rightarrow> is_RequestException e)"

definition fatal_attempt :: "http_result \<Rightarrow> bool" where
  "fatal_attempt r \<longleftrightarrow>
     (case r of Response status_code \<Rightarrow> False | Get_raised e \<Rightarrow> \<not> is_RequestException e)"


section \<open>Stream monitor: \<open>process_with_websocket\<close>\<close>

text \<open>
  \<open>ws.recv()\<close> returns a text frame (\<open>str\<close>) or a binary one (\<open>bytes\<close>), or raises: a
  \<open>WebSocketTimeoutException\<close> when nothing arrived in time, a
  \<open>WebSocketConnectionClosedException\<close> when the channel is closed, or something else.
  The frames of one run are a script the monitor reads from front to back.
\<close>

datatype frame = Text string | Binary

datatype recv_result = Received frame | RecvRaised exn

text \<open>
  What a function does for its caller: it returns a value, it raises, or --- for the
  two monitors, whose loops wait on the environment --- it is still waiting when the
  script of the environment ends.
\<close>

datatype 'a outcome = Returned 'a | Raised exn | Pending

text \<open>One pass through the body of \<open>while True\<close>: go round again, or \<open>break\<close>
  with the values of \<open>execution_done\<close> and \<open>errors\<close>.\<close>

datatype step = Continue | Break "bool \<times> string list"

text \<open>
  The dispatch on a parsed message. Every \<open>.get\<close> is on a value that need not be a
  dict, and raises \<open>AttributeError\<close> if it is not.
\<close>

definition on_message :: "python \<Rightarrow> string \<Rightarrow> bool \<times> string list \<Rightarrow> pyval \<Rightarrow> exn + step" where
  "on_message py prompt_id st message =
     and_then (py_get message ''type'' PNone) (\<lambda>msg_type.
       if msg_type = PStr ''status'' then
         and_then (py_get message ''data'' (PDict [])) (\<lambda>d.
         and_then (py_get d ''status'' (PDict [])) (\<lambda>status_data.
         and_then (py_get status_data ''exec_info'' (PDict [])) (\<lambda>exec_info.
         and_then (py_get exec_info ''queue_remaining'' (PStr ''N/A'')) (\<lambda>queue_remaining.
           Inr Continue))))
       else if msg_type = PStr ''executing'' then
         and_then (py_get message ''data'' (PDict [])) (\<lambda>data.
         and_then (py_get data ''node'' PNone) (\<lambda>node.
           if node = PNone then
             and_then (py_get data ''prompt_id'' PNone) (\<lambda>pid.
               if pid = PStr prompt_id then Inr (Break (True, snd st)) else Inr Continue)
           else Inr Continue))
       else if msg_type = PStr ''execution_error'' then
         and_then (py_get message ''data'' (PDict [])) (\<lambda>data.
         and_then (py_get data ''prompt_id'' PNone) (\<lambda>pid.
           if pid = PStr prompt_id then
             and_then (py_get data ''node_type'' PNone) (\<lambda>node_type.
             and_then (py_get data ''node_id'' PNone) (\<lambda>node_id.
             and_then (py_get data ''exception_message'' PNone) (\<lambda>exception_message.
               let error_details =
                     ''Node Type: '' @ py_str py node_type @ '', Node ID: '' @ py_str py node_id
                     @ '', Message: '' @ py_str py exception_message
               in Inr (Break (fst st, snd st @ [''Workflow execution error: '' @ error_details])))))
           else Inr Continue))
       else Inr Continue)"

text \<open>The body of the inner \<open>try\<close>: receive, and parse and dispatch a text frame.\<close>

definition loop_body :: "python \<Rightarrow> string \<Rightarrow> bool \<times> string list \<Rightarrow> recv_result \<Rightarrow> exn + step" where
  "loop_body py prompt_id st r =
     (case r of
        RecvRaised e \<Rightarrow> Inl e
      | Received Binary \<Rightarrow> Inr Continue
      | Received (Text out) \<Rightarrow> and_then (json_loads py out) (on_message py prompt_id st))"

text \<open>
  The reconnection loop \<open>for attempt in range(WEBSOCKET_RECONNECT_ATTEMPTS)\<close>.
  \<open>connect k\<close> is the outcome of the \<open>k\<close>-th call of \<open>ws.connect\<close> of the run (\<open>None\<close>:
  connected). A successful attempt leaves the loop; a failed one is logged, and the
  failure of attempt \<open>N - 1\<close> is raised again. (The sleep before each connection is
  inside the \<open>try\<close>; \<open>WEBSOCKET_RECONNECT_DELAY_S\<close> is taken not to be negative, so the
  sleep does not raise.) The result is the number of connection calls made so far. The
  third argument is \<open>attempt\<close>, the fourth the attempts left.
\<close>

fun reconnect :: "(nat \<Rightarrow> exn option) \<Rightarrow> int \<Rightarrow> nat \<Rightarrow> nat \<Rightarrow> nat \<Rightarrow> exn + nat" where
  "reconnect connect N attempt 0 k = Inr k"
| "reconnect connect N attempt (Suc left) k =
     (case connect k of
        None \<Rightarrow> Inr (Suc k)
      | Some reconn_err \<Rightarrow>
          if int attempt = N - 1 then Inl reconn_err
          else reconnect connect N (Suc attempt) left (Suc k))"

text \<open>
  The \<open>while True\<close> loop with its three \<open>except\<close> clauses, over the script of frames.
  \<open>st\<close> is \<open>(execution_done, errors)\<close>, \<open>k\<close> the number of connection calls so far.
  An exception that no clause names leaves the function. The \<open>finally\<close> block only closes
  the socket when it is still connected; it changes neither the result nor the exception.
\<close>

fun monitor_loop ::
  "python \<Rightarrow> int \<Rightarrow> (nat \<Rightarrow> exn option) \<Rightarrow> string \<Rightarrow> bool \<times> string list \<Rightarrow> nat
   \<Rightarrow> recv_result list \<Rightarrow> (bool \<times> string list) outcome" where
  "monitor_loop py N connect prompt_id st k [] = Pending"
| "monitor_loop py N connect prompt_id st k (r # rs) =
     (case loop_body py prompt_id st r of
        Inr (Break st') \<Rightarrow> Returned st'
      | Inr Continue \<Rightarrow> monitor_loop py N connect prompt_id st k rs
      | Inl e \<Rightarrow>
          if exn_class_of e = WebSocketTimeoutException
          then monitor_loop py N connect prompt_id st k rs
          else if exn_class_of e = WebSocketConnectionClosedException
          then (case reconnect connect N 0 (nat N) k of
                  Inl reconn_err \<Rightarrow> Raised reconn_err
                | Inr k' \<Rightarrow> monitor_loop py N connect prompt_id st k' rs)
          else if is_JSONDecodeError e
          then monitor_loop py N connect prompt_id st k rs
          else Raised e)"

text \<open>
  \<open>process_with_websocket\<close>: \<open>N\<close> is \<open>WEBSOCKET_RECONNECT_ATTEMPTS\<close>. A failure of the
  first \<open>ws.connect\<close> is outside the inner \<open>try\<close> and leaves the function.
\<close>

definition process_with_websocket ::
  "python \<Rightarrow> int \<Rightarrow> (nat \<Rightarrow> exn option) \<Rightarrow> recv_result list \<Rightarrow> string
   \<Rightarrow> (bool \<times> string list) outcome" where
  "process_with_websocket py N connect frames prompt_id =
     (case connect 0 of
        Some e \<Rightarrow> Raised e
      | None \<Rightarrow> monitor_loop py N connect prompt_id (False, []) 1 frames)"


text \<open>
  The vocabulary of the claims about messages. A status message is a JSON object of type
  \<open>status\<close> whose \<open>data\<close>, \<open>status\<close> and \<open>exec_info\<close> fields are objects wherever they
  are present. A message for another prompt is an object of another type whose \<open>data\<close>
  object carries a \<open>prompt_id\<close> different from the handle's.
\<close>

definition object_or_absent :: "pyval option \<Rightarrow> (string \<times> pyval) list option" where
  "object_or_absent v = (case v of None \<Rightarrow> Some [] | Some (PDict d) \<Rightarrow> Some d | Some _ \<Rightarrow> None)"

definition status_message :: "pyval \<Rightarrow> bool" where
  "status_message m \<longleftrightarrow>
     (case m of
        PDict kvs \<Rightarrow>
          map_of kvs ''type'' = Some (PStr ''status'') \<and>
          (case object_or_absent (map_of kvs ''data'') of
             None \<Rightarrow> False
           | Some d \<Rightarrow>
               (case object_or_absent (map_of d ''status'') of
                  None \<Rightarrow> False
                | Some sd \<Rightarrow> object_or_absent (map_of sd ''exec_info'') \<noteq> None))
      | _ \<Rightarrow> False)"

definition other_prompt_message :: "string \<Rightarrow> pyval \<Rightarrow> bool" where
  "other_prompt_message prompt_id m \<longleftrightarrow>
     (case m of
        PDict kvs \<Rightarrow>
          map_of kvs ''type'' \<noteq> Some (PStr ''status'') \<and>
          (case map_of kvs ''data'' of
             Some (PDict d) \<Rightarrow>
               (case map_of d ''prompt_id'' of
                  None \<Rightarrow> False
                | Some pid \<Rightarrow> pid \<noteq> PStr prompt_id)
           | _ \<Rightarrow> False)
      | _ \<Rightarrow> False)"

text \<open>The two terminal messages for a prompt.\<close>

definition completion_message :: "string \<Rightarrow> pyval \<Rightarrow> bool" where
  "completion_message prompt_id m \<longleftrightarrow>
     (case m of
        PDict kvs \<Rightarrow>
          map_of kvs ''type'' = Some (PStr ''executing'') \<and>
          (case map_of kvs ''data'' of
             Some (PDict d) \<Rightarrow>
               map_of d ''node'' = Some PNone \<and> map_of d ''prompt_id'' = Some (PStr prompt_id)
           | _ \<Rightarrow> False)
      | _ \<Rightarrow> False)"

definition execution_error_message :: "string \<Rightarrow> pyval \<Rightarrow> bool" where
  "execution_error_message prompt_id m \<longleftrightarrow>
     (case m of
        PDict kvs \<Rightarrow>
          map_of kvs ''type'' = Some (PStr ''execution_error'') \<and>
          (case map_of kvs ''data'' of
             Some (PDict d) \<Rightarrow> map_of d ''prompt_id'' = Some (PStr prompt_id)
           | _ \<Rightarrow> False)
      | _ \<Rightarrow> False)"

text \<open>
  A message the monitor passes over: an object that is neither of the two terminal
  messages for the prompt and whose inspected fields are objects where they are present.
  That is a status message; an \<open>executing\<close> message that names a node or is not for the
  prompt; an \<open>execution_error\<close> message that is not for the prompt; and an object of any
  other type (a progress report, say), which the monitor does not look into.
\<close>

definition ignored_message :: "string \<Rightarrow> pyval \<Rightarrow> bool" where
  "ignored_message prompt_id m \<longleftrightarrow>
     (case m of
        PDict kvs \<Rightarrow>
          if map_of kvs ''type'' = Some (PStr ''status'') then status_message m
          else if map_of kvs ''type'' = Some (PStr ''executing'') then
            (case object_or_absent (map_of kvs ''data'') of
               None \<Rightarrow> False
             | Some d \<Rightarrow>
                 \<not> ((map_of d ''node'' = None \<or> map_of d ''node'' = Some PNone)
                    \<and> map_of d ''prompt_id'' = Some (PStr prompt_id)))
          else if map_of kvs ''type'' = Some (PStr ''execution_error'') then
            (case object_or_absent (map_of kvs ''data'') of
               None \<Rightarrow> False
             | Some d \<Rightarrow> map_of d ''prompt_id'' \<noteq> Some (PStr prompt_id))
          else True
      | _ \<Rightarrow> False)"

text \<open>
  A receive that is noise for the handle \<open>prompt_id\<close>: a timeout, a binary frame, a text
  frame that is not JSON, or a message the monitor passes over.
\<close>

definition noise :: "python \<Rightarrow> string \<Rightarrow> recv_result \<Rightarrow> bool" where
  "noise py prompt_id r \<longleftrightarrow>
     (case r of
        Received Binary \<Rightarrow> True
      | Received (Text out) \<Rightarrow>
          (case json_loads py out of
             Inl e \<Rightarrow> is_JSONDecodeError e
           | Inr m \<Rightarrow> ignored_message prompt_id m)
      | RecvRaised e \<Rightarrow> exn_class_of e = WebSocketTimeoutException)"

text \<open>
  A stretch of a run that does not disturb the monitor: each receive is noise, or a
  closure of the channel after which a reconnection attempt succeeds. \<open>k\<close> is the number
  of connection calls made before the stretch.
\<close>

fun undisturbed ::
  "python \<Rightarrow> int \<Rightarrow> (nat \<Rightarrow> exn option) \<Rightarrow> string \<Rightarrow> nat \<Rightarrow> recv_result list \<Rightarrow> bool" where
  "undisturbed py N connect prompt_id k [] = True"
| "undisturbed py N connect prompt_id k (Received f # rs) =
     (noise py prompt_id (Received f) \<and> undisturbed py N connect prompt_id k rs)"
| "undisturbed py N connect prompt_id k (RecvRaised e # rs) =
     (if exn_class_of e = WebSocketConnectionClosedException then
        (case reconnect connect N 0 (nat N) k of
           Inl reconn_err \<Rightarrow> False
         | Inr k' \<Rightarrow> undisturbed py N connect prompt_id k' rs)
      else noise py prompt_id (RecvRaised e) \<and> undisturbed py N connect prompt_id k rs)"


section \<open>Workflow submitter: \<open>queue_workflow\<close>\<close>

text \<open>
  What \<open>requests\<close> hands back for a request that did not raise: the status code, the
  body as text and as bytes, what \<open>response.json()\<close> gives (a value, or the exception it raises),
  and the text of the \<open>HTTPError\<close> that \<open>raise_for_status()\<close> raises for a 4xx or 5xx
  status.
\<close>

record response =
  status_code :: int
  body_text :: string
  content :: string
  body_json :: "exn + pyval"
  http_error :: string

definition raise_for_status :: "response \<Rightarrow> exn option" where
  "raise_for_status r =
     (if 400 \<le> status_code r \<and> status_code r < 600
      then Some (Exn RequestException (http_error r)) else None)"

definition newline :: string where
  "newline = [CHR 0x0A]"

text \<open>The bullet and the space that start a detail line, in UTF-8.\<close>

definition bullet :: string where
  "bullet = [CHR 0xE2, CHR 0x80, CHR 0xA2, CHR 0x20]"

definition is_dict :: "pyval \<Rightarrow> bool" where
  "is_dict v \<longleftrightarrow> (case v of PDict kvs \<Rightarrow> True | _ \<Rightarrow> False)"

text \<open>
  The inner loop \<open>for error_type, msg in node_error.items()\<close> and the outer loop
  \<open>for node_id, node_error in error_data["node_errors"].items()\<close>; each appends to
  \<open>details\<close>.
\<close>

fun node_error_lines :: "python \<Rightarrow> string \<Rightarrow> (string \<times> pyval) list \<Rightarrow> string list \<Rightarrow> string list" where
  "node_error_lines py node_id [] details = details"
| "node_error_lines py node_id ((error_type, msg) # rest) details =
     node_error_lines py node_id rest
       (details @ [''Node '' @ node_id @ '' ('' @ error_type @ ''): '' @ py_str py msg])"

fun collect_details :: "python \<Rightarrow> (string \<times> pyval) list \<Rightarrow> string list \<Rightarrow> string list" where
  "collect_details py [] details = details"
| "collect_details py ((node_id, node_error) # rest) details =
     (case node_error of
        PDict errs \<Rightarrow> collect_details py rest (node_error_lines py node_id errs details)
      | _ \<Rightarrow>
          collect_details py rest (details @ [''Node '' @ node_id @ '': '' @ py_str py node_error]))"

text \<open>
  The body of the \<open>try\<close> after \<open>error_data = response.json()\<close>. It ends in
  \<open>raise ValueError(error_msg)\<close>, unless an operation on a value of the wrong type
  raises before.
\<close>

definition validation_failure :: "python \<Rightarrow> pyval \<Rightarrow> exn + pyval" where
  "validation_failure py error_data =
     and_then (py_contains error_data ''error'') (\<lambda>has_error.
     and_then
       (if has_error then
          and_then (py_getitem error_data ''error'') (\<lambda>error_info.
            if is_dict error_info
            then py_get error_info ''message'' (PStr ''Workflow validation failed'')
            else Inr (PStr (py_str py error_info)))
        else Inr (PStr ''Workflow validation failed''))
       (\<lambda>error_msg.
     and_then (py_contains error_data ''node_errors'') (\<lambda>has_node_errors.
     and_then
       (if has_node_errors then
          and_then (py_getitem error_data ''node_errors'') (\<lambda>node_errors.
          and_then (py_items node_errors) (\<lambda>items.
            let details = collect_details py items []
            in if details \<noteq> []
               then py_iadd_str py error_msg
                      ('':'' @ newline @ join newline (map (\<lambda>d. bullet @ d) details))
               else Inr error_msg))
        else Inr error_msg)
       (\<lambda>error_msg. Inl (Exn ValueError (py_str py error_msg))))))"

text \<open>
  \<open>queue_workflow\<close>, given the outcome of \<open>requests.post\<close>. For status 400 the
  \<open>except json.JSONDecodeError\<close> clause turns a body that is not JSON into a
  \<open>ValueError\<close> carrying the body text; every other exception leaves the function.
\<close>

definition queue_workflow :: "python \<Rightarrow> exn + response \<Rightarrow> exn + pyval" where
  "queue_workflow py post =
     (case post of
        Inl e \<Rightarrow> Inl e
      | Inr r \<Rightarrow>
          let rest = (case raise_for_status r of Some e \<Rightarrow> Inl e | None \<Rightarrow> body_json r)
          in if status_code r = 400 then
               (case and_then (body_json r) (validation_failure py) of
                  Inl e \<Rightarrow>
                    if is_JSONDecodeError e
                    then Inl (Exn ValueError (''ComfyUI validation failed: '' @ body_text r))
                    else Inl e
                | Inr v \<Rightarrow> rest)
             else rest)"

text \<open>
  The vocabulary of the claim about validation details: the \<open>(node, error_type, message)\<close>
  triples of a \<open>node_errors\<close> mapping in the order they are met, the line of one triple,
  and the top-level message of the error object (the default text when the response
  has no \<open>error\<close> or the error object no \<open>message\<close>, the text of an \<open>error\<close> that is not an
  object; undefined when \<open>message\<close> is not a string).
\<close>

definition node_error_pairs :: "(string \<times> pyval) list \<Rightarrow> (string \<times> string \<times> pyval) list" where
  "node_error_pairs node_errors =
     concat (map (\<lambda>(node_id, node_error).
                    case node_error of
                      PDict errs \<Rightarrow> map (\<lambda>(error_type, msg). (node_id, error_type, msg)) errs
                    | _ \<Rightarrow> [])
                 node_errors)"

fun pair_line :: "python \<Rightarrow> string \<times> string \<times> pyval \<Rightarrow> string" where
  "pair_line py (node_id, error_type, msg) =
     ''Node '' @ node_id @ '' ('' @ error_type @ ''): '' @ py_str py msg"

definition top_level_message :: "python \<Rightarrow> (string \<times> pyval) list \<Rightarrow> string option" where
  "top_level_message py error_data =
     (case map_of error_data ''error'' of
        None \<Rightarrow> Some ''Workflow validation failed''
      | Some (PDict error_info) \<Rightarrow>
          (case map_of error_info ''message'' of
             None \<Rightarrow> Some ''Workflow validation failed''
           | Some (PStr message) \<Rightarrow> Some message
           | Some _ \<Rightarrow> None)
      | Some v \<Rightarrow> Some (py_str py v))"


section \<open>Poll monitor: \<open>process_with_polling\<close>\<close>

text \<open>
  \<open>get_history\<close>, given the outcome of its \<open>requests.get\<close>: \<open>raise_for_status()\<close>, then
  the body as JSON.
\<close>

definition get_history :: "exn + response \<Rightarrow> exn + pyval" where
  "get_history got =
     and_then got (\<lambda>r. case raise_for_status r of Some e \<Rightarrow> Inl e | None \<Rightarrow> body_json r)"

text \<open>
  One round of the polling loop, as the environment supplies it: the value of
  \<open>time.time() - start_time\<close> when the loop condition is tested, the outcome of the
  request to \<open>/queue\<close>, and the outcome of the request to \<open>/history/<prompt_id>\<close> that
  \<open>get_history\<close> makes if the round gets that far.
\<close>

record poll_round =
  elapsed :: rat
  queue_got :: "exn + response"
  history_got :: "exn + response"

definition is_number :: "pyval \<Rightarrow> bool" where
  "is_number v \<longleftrightarrow> (case v of PBool b \<Rightarrow> True | PInt i \<Rightarrow> True | PFloat q \<Rightarrow> True | _ \<Rightarrow> False)"

definition is_float :: "pyval \<Rightarrow> bool" where
  "is_float v \<longleftrightarrow> (case v of PFloat q \<Rightarrow> True | _ \<Rightarrow> False)"

text \<open>
  The values \<open>for item in a + b\<close> runs through. Two lists are concatenated, and so are
  two strings (whose characters are then the items); two numbers add up to a number, which
  cannot be iterated; every other pair has no \<open>+\<close>.
\<close>

fun sum_items :: "python \<Rightarrow> pyval \<Rightarrow> pyval \<Rightarrow> exn + pyval list" where
  "sum_items py (PList xs) (PList ys) = Inr (xs @ ys)"
| "sum_items py (PList xs) b =
     Inl (type_error (''can only concatenate list (not \"'' @ type_name b @ ''\") to list''))"
| "sum_items py (PStr s) (PStr t) = Inr (map PStr (characters py (s @ t)))"
| "sum_items py (PStr s) b =
     Inl (type_error (''can only concatenate str (not \"'' @ type_name b @ ''\") to str''))"
| "sum_items py a b =
     (if is_number a \<and> is_number b
      then Inl (type_error (quoted (if is_float a \<or> is_float b then ''float'' else ''int'')
                            @ '' object is not iterable''))
      else Inl (type_error (''unsupported operand type(s) for +: '' @ quoted (type_name a)
                            @ '' and '' @ quoted (type_name b))))"

text \<open>\<open>any(prompt_id in str(item) for item in items)\<close>.\<close>

definition in_queue :: "python \<Rightarrow> string \<Rightarrow> pyval list \<Rightarrow> bool" where
  "in_queue py prompt_id items = list_ex (\<lambda>item. is_substring prompt_id (py_str py item)) items"

text \<open>
  The body of the \<open>try\<close> in the loop: \<open>Inr True\<close> is \<open>return True, errors\<close>, \<open>Inr False\<close>
  is falling out of the \<open>try\<close>, and \<open>Inl e\<close> an exception, which the
  \<open>except Exception\<close> clause logs.
\<close>

definition poll_once :: "python \<Rightarrow> string \<Rightarrow> poll_round \<Rightarrow> exn + bool" where
  "poll_once py prompt_id r =
     and_then (queue_got r) (\<lambda>queue_resp.
     and_then (body_json queue_resp) (\<lambda>queue_data.
     and_then (py_get queue_data ''queue_pending'' (PList [])) (\<lambda>queue_pending.
     and_then (py_get queue_data ''queue_running'' (PList [])) (\<lambda>queue_running.
     and_then (sum_items py queue_pending queue_running) (\<lambda>items.
       if \<not> in_queue py prompt_id items then
         and_then (get_history (history_got r)) (\<lambda>history.
           py_contains history prompt_id)
       else Inr False)))))"

text \<open>
  \<open>while time.time() - start_time < timeout\<close> over the script of rounds. A round within
  the timeout that does not return sleeps and goes round again, whether its \<open>try\<close> fell
  through or raised; the first round at or past the timeout leaves the loop, and the
  timeout message is appended to \<open>errors\<close>.
\<close>

fun polling_loop ::
  "python \<Rightarrow> string \<Rightarrow> int \<Rightarrow> string list \<Rightarrow> poll_round list \<Rightarrow> (bool \<times> string list) outcome" where
  "polling_loop py prompt_id timeout errors [] = Pending"
| "polling_loop py prompt_id timeout errors (r # rs) =
     (if elapsed r < of_int timeout then
        (case poll_once py prompt_id r of
           Inr True \<Rightarrow> Returned (True, errors)
         | Inr False \<Rightarrow> polling_loop py prompt_id timeout errors rs
         | Inl e \<Rightarrow> polling_loop py prompt_id timeout errors rs)
      else Returned (False, errors @ [''Workflow execution timed out after '' @ str_int timeout
                                      @ '' seconds'']))"

definition process_with_polling ::
  "python \<Rightarrow> string \<Rightarrow> int \<Rightarrow> poll_round list \<Rightarrow> (bool \<times> string list) outcome" where
  "process_with_polling py prompt_id timeout rounds = polling_loop py prompt_id timeout [] rounds"

text \<open>
  The vocabulary of the claim about polling. The items of a round are those of the
  \<open>queue_pending\<close> and \<open>queue_running\<close> lists of the queue listing (a missing list is
  empty). The prompt has left the queue when no item mentions its id, it is still queued
  when some item does, and it is in the history when the history request succeeds and its
  record contains the id.
\<close>

definition list_or_absent :: "pyval option \<Rightarrow> pyval list option" where
  "list_or_absent v = (case v of None \<Rightarrow> Some [] | Some (PList xs) \<Rightarrow> Some xs | Some _ \<Rightarrow> None)"

definition queue_items :: "poll_round \<Rightarrow> pyval list option" where
  "queue_items r =
     (case queue_got r of
        Inl e \<Rightarrow> None
      | Inr resp \<Rightarrow>
          (case body_json resp of
             Inr (PDict q) \<Rightarrow>
               (case list_or_absent (map_of q ''queue_pending'') of
                  None \<Rightarrow> None
                | Some pending \<Rightarrow>
                    (case list_or_absent (map_of q ''queue_running'') of
                       None \<Rightarrow> None
                     | Some running \<Rightarrow> Some (pending @ running)))
           | _ \<Rightarrow> None))"

definition left_queue :: "python \<Rightarrow> string \<Rightarrow> poll_round \<Rightarrow> bool" where
  "left_queue py prompt_id r \<longleftrightarrow>
     (case queue_items r of
        None \<Rightarrow> False
      | Some items \<Rightarrow> \<forall>item \<in> set items. \<not> is_substring prompt_id (py_str py item))"

definition still_queued :: "python \<Rightarrow> string \<Rightarrow> poll_round \<Rightarrow> bool" where
  "still_queued py prompt_id r \<longleftrightarrow>
     (case queue_items r of
        None \<Rightarrow> False
      | Some items \<Rightarrow> \<exists>item \<in> set items. is_substring prompt_id (py_str py item))"

definition in_history :: "string \<Rightarrow> poll_round \<Rightarrow> bool" where
  "in_history prompt_id r \<longleftrightarrow>
     (case get_history (history_got r) of
        Inl e \<Rightarrow> False
      | Inr history \<Rightarrow> py_contains history prompt_id = Inr True)"

definition timeout_message :: "int \<Rightarrow> string" where
  "timeout_message timeout = ''Workflow execution timed out after '' @ str_int timeout @ '' seconds''"


section \<open>Input image upload: \<open>upload_images\<close>\<close>

text \<open>\<open>image_data.split(",", 1)[1]\<close> for a string that contains a comma.\<close>

fun after_comma :: "string \<Rightarrow> string" where
  "after_comma [] = []"
| "after_comma (c # cs) = (if c = CHR '','' then cs else after_comma cs)"

text \<open>
  \<open>base64_data\<close>: the part after a data-URI prefix. \<open>"," in image_data\<close> is defined for
  lists and dicts too, which have no \<open>split\<close>.
\<close>

definition base64_part :: "pyval \<Rightarrow> exn + pyval" where
  "base64_part image_data =
     and_then (py_contains image_data '','') (\<lambda>has_comma.
       if has_comma then
         (case image_data of
            PStr s \<Rightarrow> Inr (PStr (after_comma s))
          | _ \<Rightarrow> Inl (attribute_error image_data ''split''))
       else Inr image_data)"

definition py_b64decode :: "python \<Rightarrow> pyval \<Rightarrow> exn + string" where
  "py_b64decode py v =
     (case v of
        PStr s \<Rightarrow> b64decode py s
      | _ \<Rightarrow> Inl (type_error (''argument should be a bytes-like object or ASCII string, not ''
                              @ quoted (type_name v))))"

text \<open>
  The body of the \<open>try\<close> for one image, given the outcome of its \<open>requests.post\<close>: the
  line for \<open>responses\<close>, or the exception.
\<close>

definition upload_one :: "python \<Rightarrow> exn + response \<Rightarrow> pyval \<Rightarrow> exn + string" where
  "upload_one py post img =
     and_then (py_getitem img ''name'') (\<lambda>name.
     and_then (py_getitem img ''image'') (\<lambda>image_data.
     and_then (base64_part image_data) (\<lambda>base64_data.
     and_then (py_b64decode py base64_data) (\<lambda>blob.
     and_then post (\<lambda>response.
       case raise_for_status response of
         Some e \<Rightarrow> Inl e
       | None \<Rightarrow> Inr (''Successfully uploaded '' @ py_str py name))))))"

text \<open>
  The loop over the images; \<open>post i\<close> is the outcome of the request for the \<open>i\<close>-th
  image. Each of the three \<open>except\<close> clauses appends one line to \<open>errors\<close>; the
  \<open>image.get\<close> in that line raises out of the function when the image is not a dict.
\<close>

fun upload_each ::
  "python \<Rightarrow> (nat \<Rightarrow> exn + response) \<Rightarrow> nat \<Rightarrow> pyval list \<Rightarrow> string list \<Rightarrow> string list
   \<Rightarrow> exn + (string list \<times> string list)" where
  "upload_each py post i [] responses errors = Inr (responses, errors)"
| "upload_each py post i (img # rest) responses errors =
     (case upload_one py (post i) img of
        Inr line \<Rightarrow> upload_each py post (Suc i) rest (responses @ [line]) errors
      | Inl e \<Rightarrow>
          and_then (py_get img ''name'' (PStr ''unknown'')) (\<lambda>name.
            upload_each py post (Suc i) rest responses
              (errors @ [(if exn_class_of e = BinasciiError then ''Error decoding base64 for ''
                          else if is_RequestException e then ''Error uploading ''
                          else ''Unexpected error uploading '')
                         @ py_str py name @ '': '' @ exn_str e])))"

definition upload_images :: "python \<Rightarrow> (nat \<Rightarrow> exn + response) \<Rightarrow> pyval \<Rightarrow> exn + pyval" where
  "upload_images py post images =
     (if \<not> truthy images then
        Inr (PDict [(''status'', PStr ''success''), (''message'', PStr ''No images to upload''),
                    (''details'', PList [])])
      else
        and_then (py_len py images) (\<lambda>n.
        and_then (py_iter py images) (\<lambda>imgs.
        and_then (upload_each py post 0 imgs [] []) (\<lambda>(responses, errors).
          if errors \<noteq> [] then
            Inr (PDict [(''status'', PStr ''error''),
                        (''message'', PStr ''Some images failed to upload''),
                        (''details'', PList (map PStr errors))])
          else
            Inr (PDict [(''status'', PStr ''success''),
                        (''message'', PStr ''All images uploaded successfully''),
                        (''details'', PList (map PStr responses))])))))"


section \<open>Orchestrator: \<open>handler\<close>\<close>

text \<open>
  What one invocation of the handler finds outside the process: whether the engine
  process is already running, the outcome of \<open>subprocess.Popen\<close>, the requests of the two
  readiness probes, of the image uploads, of the submission, of the history fetch and of
  the \<open>k\<close>-th image fetch, whether \<open>websocket\<close> can be imported, the scripts of the two
  monitors, and for the \<open>k\<close>-th fetched image the outcomes of the steps of the bucket
  upload: the import of \<open>rp_upload\<close>, \<open>tempfile.NamedTemporaryFile\<close> (the path of the new
  file, for a suffix), \<open>f.write\<close>, \<open>rp_upload.upload_image\<close> (the URL) and \<open>os.remove\<close>.
  \<open>comfy_host\<close>, \<open>reconnect_attempts\<close> and \<open>bucket_endpoint_url\<close> are the module
  constants \<open>COMFY_HOST\<close>, \<open>WEBSOCKET_RECONNECT_ATTEMPTS\<close> and \<open>BUCKET_ENDPOINT_URL\<close>.
\<close>

record env =
  comfy_host :: string
  reconnect_attempts :: int
  bucket_endpoint_url :: "string option"
  process_running :: bool
  popen :: "exn option"
  startup_probe :: "nat \<Rightarrow> http_result"
  reachable_probe :: "nat \<Rightarrow> http_result"
  upload_post :: "nat \<Rightarrow> exn + response"
  prompt_post :: "exn + response"
  websocket_importable :: bool
  ws_connect :: "nat \<Rightarrow> exn option"
  ws_frames :: "recv_result list"
  poll_rounds :: "poll_round list"
  history_get :: "exn + response"
  view_get :: "nat \<Rightarrow> exn + response"
  rp_upload_import :: "nat \<Rightarrow> exn option"
  named_temporary_file :: "nat \<Rightarrow> string \<Rightarrow> exn + string"
  write_scratch :: "nat \<Rightarrow> exn option"
  upload_image :: "nat \<Rightarrow> exn + string"
  os_remove :: "nat \<Rightarrow> exn option"

text \<open>
  What the handler does to the outside, in the order it does it: the lines it logs itself
  (those of the functions it calls are left out, and so is \<open>traceback.print_exc()\<close>), its
  calls of the functions that reach the engine or the bucket --- \<open>start_comfyui_server\<close>,
  \<open>check_server\<close>, \<open>upload_images\<close>, \<open>queue_workflow\<close>, \<open>process_with_websocket\<close>,
  \<open>process_with_polling\<close>, \<open>get_history\<close>, \<open>get_image_data\<close> and
  \<open>rp_upload.upload_image\<close>, each recorded when it is called --- and the scratch files it
  has created and removed, each recorded when the operation has succeeded.
\<close>

datatype level = INFO | WARNING | ERROR

datatype effect =
    Log level string
  | Server_start
  | Server_probe
  | Image_upload
  | Workflow_submission
  | Stream_monitoring
  | Poll_monitoring
  | History_fetch
  | Image_fetch pyval pyval pyval
  | Scratch_file_created string
  | Bucket_upload pyval string
  | Scratch_file_removed string

definition is_log :: "effect \<Rightarrow> bool" where
  "is_log e \<longleftrightarrow> (case e of Log l text \<Rightarrow> True | _ \<Rightarrow> False)"

text \<open>
  How a piece of the handler ends: control goes on to the next statement with a value, the
  handler returns a response, an exception is on its way up, or the handler is still
  inside a monitor when the script of the environment ends. A prompt id that is not a
  string is outside this model: the two monitors are modelled for string ids only, which
  is what the engine issues.
\<close>

datatype 'a control = Next 'a | Return pyval | Raise exn | Wait | Outside_model

type_synonym 'a io = "effect list \<times> 'a control"

fun then_do :: "'a io \<Rightarrow> ('a \<Rightarrow> 'b io) \<Rightarrow> 'b io" where
  "then_do (es, Next x) f = apfst ((@) es) (f x)"
| "then_do (es, Return v) f = (es, Return v)"
| "then_do (es, Raise e) f = (es, Raise e)"
| "then_do (es, Wait) f = (es, Wait)"
| "then_do (es, Outside_model) f = (es, Outside_model)"

text \<open>\<open>try: m except Exception as e: h e\<close>.\<close>

fun catching :: "'a io \<Rightarrow> (exn \<Rightarrow> 'a io) \<Rightarrow> 'a io" where
  "catching (es, Raise e) h = apfst ((@) es) (h e)"
| "catching (es, c) h = (es, c)"

definition ok :: "'a \<Rightarrow> 'a io" where
  "ok x = ([], Next x)"

definition returning :: "pyval \<Rightarrow> 'a io" where
  "returning v = ([], Return v)"

definition raising :: "exn \<Rightarrow> 'a io" where
  "raising e = ([], Raise e)"

definition logger :: "level \<Rightarrow> string \<Rightarrow> unit io" where
  "logger l text = ([Log l text], Next ())"

definition emit :: "effect \<Rightarrow> unit io" where
  "emit e = ([e], Next ())"

text \<open>A computation inside the process that may raise, and one that may only raise.\<close>

definition compute :: "exn + 'a \<Rightarrow> 'a io" where
  "compute r = (case r of Inl e \<Rightarrow> raising e | Inr x \<Rightarrow> ok x)"

definition unless_raised :: "exn option \<Rightarrow> unit io" where
  "unless_raised r = (case r of Some e \<Rightarrow> raising e | None \<Rightarrow> ok ())"

text \<open>A call that reaches outside, with its outcome.\<close>

definition call :: "effect \<Rightarrow> exn + 'a \<Rightarrow> 'a io" where
  "call c r = then_do (emit c) (\<lambda>u. compute r)"

definition from_outcome :: "'a outcome \<Rightarrow> 'a io" where
  "from_outcome r = (case r of Returned x \<Rightarrow> ok x | Raised e \<Rightarrow> raising e | Pending \<Rightarrow> ([], Wait))"

text \<open>\<open>d[k] = v\<close> on a dict: the value of a present key is replaced, a new key goes last.\<close>

fun set_item :: "(string \<times> pyval) list \<Rightarrow> string \<Rightarrow> pyval \<Rightarrow> (string \<times> pyval) list" where
  "set_item [] k v = [(k, v)]"
| "set_item ((k', v') # kvs) k v = (if k' = k then (k, v) # kvs else (k', v') # set_item kvs k v)"

definition COMFY_API_AVAILABLE_MAX_RETRIES :: int where
  "COMFY_API_AVAILABLE_MAX_RETRIES = 500"

definition COMFY_API_AVAILABLE_INTERVAL_MS :: int where
  "COMFY_API_AVAILABLE_INTERVAL_MS = 50"

text \<open>
  \<open>start_comfyui_server\<close>: nothing to do when the engine process is alive; otherwise
  start it and probe until it answers.
\<close>

definition start_comfyui_server :: "python \<Rightarrow> env \<Rightarrow> exn + unit" where
  "start_comfyui_server py env =
     (if process_running env then Inr ()
      else
        (case popen env of
           Some e \<Rightarrow> Inl e
         | None \<Rightarrow>
             and_then (check_server py (startup_probe env) COMFY_API_AVAILABLE_MAX_RETRIES
                         COMFY_API_AVAILABLE_INTERVAL_MS) (\<lambda>reachable.
               if \<not> reachable then Inl (Exn RuntimeError ''ComfyUI server failed to start'')
               else Inr ())))"

text \<open>
  The handler up to the \<open>try\<close>: the job's input and id, validation, the start of the
  engine, the reachability probe and the upload of the input images. It hands on the job
  id and the workflow. (The client id, a fresh UUID, only goes into requests, whose
  outcomes the environment gives.)
\<close>

definition accept :: "python \<Rightarrow> env \<Rightarrow> pyval \<Rightarrow> (pyval \<times> pyval) io" where
  "accept py env job =
     then_do (compute (py_get job ''input'' (PDict []))) (\<lambda>job_input.
     then_do (compute (py_get job ''id'' (PStr ''unknown''))) (\<lambda>job_id.
     then_do (logger INFO (''Processing job: '' @ py_str py job_id)) (\<lambda>u.
     then_do (compute (validate_input py job_input)) (\<lambda>(validated_data, error_message).
       if truthy error_message then returning (PDict [(''error'', error_message)])
       else
         then_do (compute (py_getitem validated_data ''workflow'')) (\<lambda>workflow.
         then_do (compute (py_get validated_data ''images'' PNone)) (\<lambda>input_images.
         then_do (catching (call Server_start (start_comfyui_server py env)) (\<lambda>e.
                    returning (PDict [(''error'',
                                       PStr (''Failed to start ComfyUI server: '' @ exn_str e))])))
                 (\<lambda>u.
         then_do (call Server_probe
                    (check_server py (reachable_probe env) COMFY_API_AVAILABLE_MAX_RETRIES
                       COMFY_API_AVAILABLE_INTERVAL_MS)) (\<lambda>reachable.
           if \<not> reachable
           then returning (PDict [(''error'',
                                   PStr (''ComfyUI server ('' @ comfy_host env @ '') not reachable''))])
           else
             then_do
               (if truthy input_images then
                  then_do (call Image_upload (upload_images py (upload_post env) input_images))
                    (\<lambda>upload_result.
                  then_do (compute (py_getitem upload_result ''status'')) (\<lambda>status.
                    if status = PStr ''error'' then
                      then_do (compute (py_getitem upload_result ''details'')) (\<lambda>details.
                        returning (PDict [(''error'', PStr ''Failed to upload input images''),
                                          (''details'', details)]))
                    else ok ()))
                else ok ())
               (\<lambda>u. ok (job_id, workflow))))))))))"

text \<open>
  Submission: \<open>queue_workflow\<close> and the check of the prompt id it hands back.
\<close>

definition submit :: "python \<Rightarrow> env \<Rightarrow> string io" where
  "submit py env =
     then_do (logger INFO ''Queuing workflow...'') (\<lambda>u.
     then_do (call Workflow_submission (queue_workflow py (prompt_post env))) (\<lambda>queued.
     then_do (compute (py_get queued ''prompt_id'' PNone)) (\<lambda>prompt_id.
       if \<not> truthy prompt_id then
         raising (Exn ValueError (''Missing 'prompt_id' in queue response: '' @ py_str py queued))
       else
         then_do (logger INFO (''Workflow queued with prompt_id: '' @ py_str py prompt_id)) (\<lambda>u.
           case prompt_id of
             PStr X \<Rightarrow> ok X
           | _ \<Rightarrow> ([], Outside_model)))))"

text \<open>
  Monitoring: the stream monitor, or the poll monitor with its default timeout when an
  \<open>ImportError\<close> comes out of the \<open>try\<close> --- from \<open>import websocket\<close>, or from the stream
  monitor itself.
\<close>

definition poll :: "python \<Rightarrow> env \<Rightarrow> string \<Rightarrow> (bool \<times> string list) io" where
  "poll py env X =
     then_do (emit Poll_monitoring) (\<lambda>u.
       from_outcome (process_with_polling py X 600 (poll_rounds env)))"

definition monitor :: "python \<Rightarrow> env \<Rightarrow> string \<Rightarrow> (bool \<times> string list) io" where
  "monitor py env X =
     (if websocket_importable env then
        catching
          (then_do (emit Stream_monitoring) (\<lambda>u.
             from_outcome (process_with_websocket py (reconnect_attempts env) (ws_connect env)
                             (ws_frames env) X)))
          (\<lambda>e. if exn_class_of e = ImportError then poll py env X else raising e)
      else poll py env X)"

text \<open>
  From the submission to the outputs of the prompt's history record. The result is the
  prompt id, the errors collected so far and the \<open>outputs\<close> value.
\<close>

definition outputs_of_prompt :: "python \<Rightarrow> env \<Rightarrow> (string \<times> string list \<times> pyval) io" where
  "outputs_of_prompt py env =
     then_do (submit py env) (\<lambda>X.
     then_do (monitor py env X) (\<lambda>(execution_done, exec_errors).
       let errors = [] @ exec_errors in
       if \<not> execution_done \<and> errors = [] then
         raising (Exn ValueError ''Workflow monitoring exited without completion or error'')
       else
         then_do (logger INFO (''Fetching history for prompt '' @ X @ ''...'')) (\<lambda>u.
         then_do (call History_fetch (get_history (history_get env))) (\<lambda>history.
         then_do (compute (py_contains history X)) (\<lambda>found.
           if \<not> found then
             (let error_msg = ''Prompt ID '' @ X @ '' not found in history'' in
              then_do (logger ERROR error_msg) (\<lambda>u.
                if errors = [] then returning (PDict [(''error'', PStr error_msg)])
                else returning (PDict [(''error'', PStr ''Job processing failed''),
                                       (''details'', PList (map PStr (errors @ [error_msg])))])))
           else
             then_do (compute (py_get history X (PDict []))) (\<lambda>prompt_history.
             then_do (compute (py_get prompt_history ''outputs'' (PDict []))) (\<lambda>outputs.
               ok (X, errors, outputs))))))))"

text \<open>
  \<open>get_image_data\<close>, given the outcome of its request: the bytes of the body, or \<open>None\<close>
  after any exception.
\<close>

definition get_image_data :: "exn + response \<Rightarrow> string option" where
  "get_image_data got =
     (case got of
        Inl e \<Rightarrow> None
      | Inr r \<Rightarrow> (case raise_for_status r of Some e \<Rightarrow> None | None \<Rightarrow> Some (content r)))"

text \<open>\<open>os.path.splitext(filename)[1]\<close>, which takes a string.\<close>

definition py_splitext_ext :: "python \<Rightarrow> pyval \<Rightarrow> exn + string" where
  "py_splitext_ext py filename =
     (case filename of
        PStr name \<Rightarrow> Inr (splitext_ext py name)
      | _ \<Rightarrow> Inl (type_error (''expected str, bytes or os.PathLike object, not ''
                              @ type_name filename)))"

definition bucket_configured :: "env \<Rightarrow> bool" where
  "bucket_configured env \<longleftrightarrow> (case bucket_endpoint_url env of None \<Rightarrow> False | Some url \<Rightarrow> url \<noteq> [])"

text \<open>
  The state of the result collector: \<open>output_data\<close>, \<open>errors\<close>, and the number of images
  fetched so far.

  The external-upload branch for the \<open>k\<close>-th fetched image. The statements of the \<open>try\<close>
  up to \<open>os.remove(temp_path)\<close> run in sequence, so the first that raises skips the
  rest; the \<open>except\<close> clause logs one line and appends one error.
\<close>

type_synonym collector = "pyval list \<times> string list \<times> nat"

definition upload_scratch_file :: "python \<Rightarrow> env \<Rightarrow> pyval \<Rightarrow> pyval \<Rightarrow> nat \<Rightarrow> string io" where
  "upload_scratch_file py env job_id filename k =
     then_do (unless_raised (rp_upload_import env k)) (\<lambda>u.
     then_do (compute (py_splitext_ext py filename)) (\<lambda>ext.
       let file_ext = (if ext \<noteq> [] then ext else ''.png'') in
       then_do (compute (named_temporary_file env k file_ext)) (\<lambda>temp_path.
       then_do (emit (Scratch_file_created temp_path)) (\<lambda>u.
       then_do (unless_raised (write_scratch env k)) (\<lambda>u.
       then_do (call (Bucket_upload job_id temp_path) (upload_image env k)) (\<lambda>s3_url.
       then_do (unless_raised (os_remove env k)) (\<lambda>u.
       then_do (emit (Scratch_file_removed temp_path)) (\<lambda>u.
         ok s3_url))))))))"

definition store_in_bucket ::
  "python \<Rightarrow> env \<Rightarrow> pyval \<Rightarrow> pyval \<Rightarrow> collector \<Rightarrow> collector io" where
  "store_in_bucket py env job_id filename st =
     (case st of (output_data, errors, k) \<Rightarrow>
        catching
          (then_do (upload_scratch_file py env job_id filename k) (\<lambda>s3_url.
           then_do (logger INFO (''Uploaded '' @ py_str py filename @ '' to S3'')) (\<lambda>u.
             ok (output_data @ [PDict [(''filename'', filename), (''type'', PStr ''s3_url''),
                                       (''data'', PStr s3_url)]],
                 errors, Suc k))))
          (\<lambda>e.
           then_do (logger ERROR (''S3 upload failed for '' @ py_str py filename @ '': '' @ exn_str e))
             (\<lambda>u. ok (output_data, errors @ [''S3 upload failed: '' @ exn_str e], Suc k))))"

text \<open>The base64 branch; encoding bytes does not raise.\<close>

definition store_inline ::
  "python \<Rightarrow> pyval \<Rightarrow> string \<Rightarrow> collector \<Rightarrow> collector io" where
  "store_inline py filename image_bytes st =
     (case st of (output_data, errors, k) \<Rightarrow>
        then_do (logger INFO (''Encoded '' @ py_str py filename @ '' as base64'')) (\<lambda>u.
          ok (output_data @ [PDict [(''filename'', filename), (''type'', PStr ''base64''),
                                    (''data'', PStr (b64encode py image_bytes))]],
              errors, Suc k)))"

text \<open>The body of the loop over the images of one node.\<close>

definition collect_image ::
  "python \<Rightarrow> env \<Rightarrow> pyval \<Rightarrow> string \<Rightarrow> pyval \<Rightarrow> collector \<Rightarrow> collector io" where
  "collect_image py env job_id node_id image_info st =
     (case st of (output_data, errors, k) \<Rightarrow>
        then_do (compute (py_get image_info ''filename'' PNone)) (\<lambda>filename.
        then_do (compute (py_get image_info ''subfolder'' (PStr ''''))) (\<lambda>subfolder.
        then_do (compute (py_get image_info ''type'' PNone)) (\<lambda>img_type.
          if img_type = PStr ''temp'' then
            then_do (logger INFO (''Skipping temp image: '' @ py_str py filename)) (\<lambda>u. ok st)
          else if \<not> truthy filename then
            ok (output_data, errors @ [''Missing filename in node '' @ node_id], k)
          else
            then_do (emit (Image_fetch filename subfolder img_type)) (\<lambda>u.
              case get_image_data (view_get env k) of
                None \<Rightarrow>
                  ok (output_data,
                      errors @ [''Failed to fetch image data for '' @ py_str py filename], Suc k)
              | Some image_bytes \<Rightarrow>
                  if image_bytes = [] then
                    ok (output_data,
                        errors @ [''Failed to fetch image data for '' @ py_str py filename], Suc k)
                  else if bucket_configured env then store_in_bucket py env job_id filename st
                  else store_inline py filename image_bytes st)))))"

fun collect_images ::
  "python \<Rightarrow> env \<Rightarrow> pyval \<Rightarrow> string \<Rightarrow> pyval list \<Rightarrow> collector \<Rightarrow> collector io" where
  "collect_images py env job_id node_id [] st = ok st"
| "collect_images py env job_id node_id (image_info # rest) st =
     then_do (collect_image py env job_id node_id image_info st)
       (collect_images py env job_id node_id rest)"

text \<open>The body of the loop over the output nodes, and the loop.\<close>

definition collect_node ::
  "python \<Rightarrow> env \<Rightarrow> pyval \<Rightarrow> string \<times> pyval \<Rightarrow> collector \<Rightarrow> collector io" where
  "collect_node py env job_id node st =
     (case node of (node_id, node_output) \<Rightarrow>
        then_do (compute (py_contains node_output ''images'')) (\<lambda>has_images.
          if has_images then
            then_do (compute (py_getitem node_output ''images'')) (\<lambda>images.
            then_do (compute (py_iter py images)) (\<lambda>image_infos.
              collect_images py env job_id node_id image_infos st))
          else ok st))"

fun collect_nodes ::
  "python \<Rightarrow> env \<Rightarrow> pyval \<Rightarrow> (string \<times> pyval) list \<Rightarrow> collector \<Rightarrow> collector io" where
  "collect_nodes py env job_id [] st = ok st"
| "collect_nodes py env job_id (node # rest) st =
     then_do (collect_node py env job_id node st) (collect_nodes py env job_id rest)"

text \<open>
  The rest of the \<open>try\<close>: the guard on empty outputs, which records an error of its own
  when there is none yet, and the collection pass.
\<close>

definition collect_outputs ::
  "python \<Rightarrow> env \<Rightarrow> pyval \<Rightarrow> string \<Rightarrow> string list \<Rightarrow> pyval \<Rightarrow> (pyval list \<times> string list) io" where
  "collect_outputs py env job_id X errors outputs =
     then_do (if \<not> truthy outputs then logger WARNING (''No outputs found for prompt '' @ X)
              else ok ()) (\<lambda>u.
       let errors = (if \<not> truthy outputs \<and> errors = []
                     then errors @ [''Workflow produced no outputs''] else errors) in
       then_do (compute (py_len py outputs)) (\<lambda>n.
       then_do (logger INFO (''Processing '' @ str_int n @ '' output nodes...'')) (\<lambda>u.
       then_do (compute (py_items outputs)) (\<lambda>nodes.
       then_do (collect_nodes py env job_id nodes ([], errors, 0)) (\<lambda>(output_data, errors, k).
         ok (output_data, errors))))))"

text \<open>The three \<open>except\<close> clauses of the handler's \<open>try\<close>.\<close>

definition handle_exceptions :: "'a io \<Rightarrow> 'a io" where
  "handle_exceptions m =
     catching m (\<lambda>e.
       if is_ValueError e then
         then_do (logger ERROR (''Validation error: '' @ exn_str e)) (\<lambda>u.
           returning (PDict [(''error'', PStr (exn_str e))]))
       else if is_RequestException e then
         then_do (logger ERROR (''HTTP error: '' @ exn_str e)) (\<lambda>u.
           returning (PDict [(''error'', PStr (''HTTP communication error: '' @ exn_str e))]))
       else
         then_do (logger ERROR (''Unexpected error: '' @ exn_str e)) (\<lambda>u.
           returning (PDict [(''error'', PStr (''Unexpected error: '' @ exn_str e))])))"

text \<open>The final result, built from \<open>output_data\<close> and \<open>errors\<close>.\<close>

definition build_result :: "python \<Rightarrow> pyval list \<Rightarrow> string list \<Rightarrow> unit io" where
  "build_result py output_data errors =
     (let result = [];
          result = (if output_data \<noteq> [] then set_item result ''images'' (PList output_data)
                    else result);
          result = (if errors \<noteq> [] then set_item result ''errors'' (PList (map PStr errors))
                    else result)
      in
        then_do (if errors \<noteq> []
                 then logger WARNING (''Job completed with errors: ''
                                      @ py_str py (PList (map PStr errors)))
                 else ok ()) (\<lambda>u.
          if output_data = [] \<and> errors \<noteq> [] then
            then_do (logger ERROR ''Job failed with no output images'') (\<lambda>u.
              returning (PDict [(''error'', PStr ''Job processing failed''),
                                (''details'', PList (map PStr errors))]))
          else
            then_do
              (if output_data = [] \<and> errors = [] then
                 then_do (logger INFO ''Job completed but produced no images'') (\<lambda>u.
                   ok (set_item (set_item result ''status'' (PStr ''success_no_images''))
                         ''images'' (PList [])))
               else ok result)
              (\<lambda>result.
            then_do (logger INFO (''Job completed. Returning ''
                                  @ str_int (int (length output_data)) @ '' image(s)'')) (\<lambda>u.
              returning (PDict result)))))"

definition handler :: "python \<Rightarrow> env \<Rightarrow> pyval \<Rightarrow> unit io" where
  "handler py env job =
     then_do (accept py env job) (\<lambda>(job_id, workflow).
     then_do
       (handle_exceptions
          (then_do (outputs_of_prompt py env) (\<lambda>(X, errors, outputs).
             collect_outputs py env job_id X errors outputs)))
       (\<lambda>(output_data, errors). build_result py output_data errors))"

text \<open>
  The vocabulary of the claim about malformed input, for a job input that is an object:
  the workflow is missing, is not an object, or is empty; \<open>images\<close> is not a list; an
  entry of \<open>images\<close> is not an object with the keys \<open>name\<close> and \<open>image\<close>.
\<close>

definition missing_workflow :: "(string \<times> pyval) list \<Rightarrow> bool" where
  "missing_workflow job_input \<longleftrightarrow>
     (case map_of job_input ''workflow'' of None \<Rightarrow> True | Some PNone \<Rightarrow> True | Some _ \<Rightarrow> False)"

definition workflow_not_object :: "(string \<times> pyval) list \<Rightarrow> bool" where
  "workflow_not_object job_input \<longleftrightarrow>
     (case map_of job_input ''workflow'' of
        None \<Rightarrow> False
      | Some PNone \<Rightarrow> False
      | Some (PDict nodes) \<Rightarrow> False
      | Some _ \<Rightarrow> True)"

definition workflow_empty :: "(string \<times> pyval) list \<Rightarrow> bool" where
  "workflow_empty job_input \<longleftrightarrow> map_of job_input ''workflow'' = Some (PDict [])"

definition images_not_list :: "(string \<times> pyval) list \<Rightarrow> bool" where
  "images_not_list job_input \<longleftrightarrow>
     (case map_of job_input ''images'' of
        None \<Rightarrow> False
      | Some PNone \<Rightarrow> False
      | Some (PList imgs) \<Rightarrow> False
      | Some _ \<Rightarrow> True)"

definition image_entry_faulty :: "(string \<times> pyval) list \<Rightarrow> bool" where
  "image_entry_faulty job_input \<longleftrightarrow>
     (case map_of job_input ''images'' of
        Some (PList imgs) \<Rightarrow> list_ex (\<lambda>img. image_fault img \<noteq> None) imgs
      | _ \<Rightarrow> False)"

text \<open>The object a job input stands for: itself, or what it parses to when it is a string.\<close>

definition input_object :: "python \<Rightarrow> pyval \<Rightarrow> (string \<times> pyval) list option" where
  "input_object py job_input =
     (case job_input of
        PDict kvs \<Rightarrow> Some kvs
      | PStr s \<Rightarrow> (case json_loads py s of Inr (PDict kvs) \<Rightarrow> Some kvs | _ \<Rightarrow> None)
      | _ \<Rightarrow> None)"

definition malformed :: "(string \<times> pyval) list \<Rightarrow> bool" where
  "malformed job_input \<longleftrightarrow>
     missing_workflow job_input \<or> workflow_not_object job_input \<or> workflow_empty job_input
     \<or> images_not_list job_input \<or> image_entry_faulty job_input"

text \<open>The effects of a run that reach outside the process: all but the log lines.\<close>

definition outside_calls :: "effect list \<Rightarrow> effect list" where
  "outside_calls es = filter (\<lambda>e. \<not> is_log e) es"


section \<open>A fragment of the interpreter for concrete runs\<close>

text \<open>
  \<open>json.loads\<close> on the handful of texts the concrete runs below use; every other text
  is rejected here, which those runs never rely on. The same holds for the texts of the
  lists a concrete run formats, for the base64 texts and for the file names; every string
  a concrete run iterates is ASCII.
\<close>

definition status_text :: string where
  "status_text = ''{\"type\": \"status\", \"data\": {\"status\": {\"exec_info\": {\"queue_remaining\": 1}}}}''"

definition null_status_text :: string where
  "null_status_text = ''{\"type\": \"status\", \"data\": null}''"

definition completion_abc_text :: string where
  "completion_abc_text = ''{\"type\": \"executing\", \"data\": {\"node\": null, \"prompt_id\": \"abc\"}}''"

definition completion_xyz_text :: string where
  "completion_xyz_text = ''{\"type\": \"executing\", \"data\": {\"node\": null, \"prompt_id\": \"xyz\"}}''"

definition error_abc_text :: string where
  "error_abc_text = ''{\"type\": \"execution_error\", \"data\": {\"prompt_id\": \"abc\", \"node_id\": \"3\", \"node_type\": \"KSampler\", \"exception_message\": \"boom\"}}''"

definition empty_workflow_text :: string where
  "empty_workflow_text = ''{\"workflow\": {}}''"

definition executing_node_abc_text :: string where
  "executing_node_abc_text = ''{\"type\": \"executing\", \"data\": {\"node\": \"3\", \"prompt_id\": \"abc\"}}''"

definition progress_abc_text :: string where
  "progress_abc_text = ''{\"type\": \"progress\", \"data\": {\"value\": 1, \"max\": 20, \"prompt_id\": \"abc\"}}''"

definition good_workflow_text :: string where
  "good_workflow_text = ''{\"workflow\": {\"3\": {\"class_type\": \"KSampler\"}}}''"

definition json_table :: "(string \<times> pyval) list" where
  "json_table =
     [(status_text,
       PDict [(''type'', PStr ''status''),
              (''data'', PDict [(''status'', PDict [(''exec_info'', PDict [(''queue_remaining'', PInt 1)])])])]),
      (null_status_text,
       PDict [(''type'', PStr ''status''), (''data'', PNone)]),
      (completion_abc_text,
       PDict [(''type'', PStr ''executing''),
              (''data'', PDict [(''node'', PNone), (''prompt_id'', PStr ''abc'')])]),
      (completion_xyz_text,
       PDict [(''type'', PStr ''executing''),
              (''data'', PDict [(''node'', PNone), (''prompt_id'', PStr ''xyz'')])]),
      (error_abc_text,
       PDict [(''type'', PStr ''execution_error''),
              (''data'', PDict [(''prompt_id'', PStr ''abc''), (''node_id'', PStr ''3''),
                                (''node_type'', PStr ''KSampler''),
                                (''exception_message'', PStr ''boom'')])]),
      (empty_workflow_text,
       PDict [(''workflow'', PDict [])]),
      (executing_node_abc_text,
       PDict [(''type'', PStr ''executing''),
              (''data'', PDict [(''node'', PStr ''3''), (''prompt_id'', PStr ''abc'')])]),
      (progress_abc_text,
       PDict [(''type'', PStr ''progress''),
              (''data'', PDict [(''value'', PInt 1), (''max'', PInt 20),
                                (''prompt_id'', PStr ''abc'')])]),
      (good_workflow_text,
       PDict [(''workflow'', PDict [(''3'', PDict [(''class_type'', PStr ''KSampler'')])])])]"

definition repr_table :: "(pyval \<times> string) list" where
  "repr_table =
     [(PList [PInt 0, PStr ''abc''], ''[0, 'abc']''),
      (PList [PStr ''Workflow produced no outputs''], ''['Workflow produced no outputs']''),
      (PList [PStr ''S3 upload failed: Access Denied''], ''['S3 upload failed: Access Denied']'')]"

definition base64_table :: "(string \<times> string) list" where
  "base64_table = [(''aGVsbG8='', ''hello'')]"

definition extension_table :: "(string \<times> string) list" where
  "extension_table = [(''ComfyUI_00001_.png'', ''.png'')]"

definition example_python :: python where
  "example_python =
     \<lparr> json_loads = (\<lambda>s. case map_of json_table s of
                          Some v \<Rightarrow> Inr v
                        | None \<Rightarrow> Inl (Exn JSONDecodeError ''Expecting value'')),
       repr = (\<lambda>v. case map_of repr_table v of Some s \<Rightarrow> s | None \<Rightarrow> []),
       characters = map (\<lambda>c. [c]),
       b64decode = (\<lambda>s. case map_of base64_table s of
                          Some b \<Rightarrow> Inr b
                        | None \<Rightarrow> Inl (Exn BinasciiError ''Incorrect padding'')),
       b64encode = (\<lambda>b. case map_of (map (\<lambda>(s, b). (b, s)) base64_table) b of
                          Some s \<Rightarrow> s
                        | None \<Rightarrow> []),
       splitext_ext = (\<lambda>name. case map_of extension_table name of Some ext \<Rightarrow> ext | None \<Rightarrow> []),
       sleep_ms = (\<lambda>d. None) \<rparr>"

text \<open>An engine response that rejects a workflow with two faulty nodes.\<close>

definition rejected_response :: response where
  "rejected_response =
     \<lparr> status_code = 400,
       body_text = ''{}'',
       content = ''{}'',
       body_json = Inr (PDict
         [(''error'', PDict [(''type'', PStr ''prompt_outputs_failed_validation''),
                             (''message'', PStr ''Prompt outputs failed validation'')]),
          (''node_errors'', PDict
             [(''3'', PDict [(''errors'', PStr ''bad seed''), (''class_type'', PStr ''KSampler'')]),
              (''7'', PDict [(''errors'', PStr ''missing input'')])])]),
       http_error = ''400 Client Error'' \<rparr>"

text \<open>
  Three rounds of polling for the prompt \<open>abc\<close>: it is running, then it is gone from
  the queue and in the history; and a round past a timeout of 600 seconds.
\<close>

definition json_response :: "pyval \<Rightarrow> response" where
  "json_response v =
     \<lparr> status_code = 200, body_text = [], content = [], body_json = Inr v, http_error = [] \<rparr>"

definition abc_running :: pyval where
  "abc_running = PList [PInt 0, PStr ''abc'']"

definition round_running :: poll_round where
  "round_running =
     \<lparr> elapsed = 0,
       queue_got = Inr (json_response (PDict [(''queue_running'', PList [abc_running]),
                                              (''queue_pending'', PList [])])),
       history_got = Inr (json_response (PDict [])) \<rparr>"

definition round_finished :: poll_round where
  "round_finished =
     \<lparr> elapsed = 1,
       queue_got = Inr (json_response (PDict [(''queue_running'', PList []),
                                              (''queue_pending'', PList [])])),
       history_got = Inr (json_response (PDict [(''abc'', PDict [(''outputs'', PDict [])])])) \<rparr>"

definition round_late :: poll_round where
  "round_late =
     \<lparr> elapsed = 601,
       queue_got = Inl (Exn RequestException ''Connection refused''),
       history_got = Inl (Exn RequestException ''Connection refused'') \<rparr>"

text \<open>Connection scripts: the first \<open>ws.connect\<close> succeeds; later ones succeed or are refused.\<close>

definition always_connects :: "nat \<Rightarrow> exn option" where
  "always_connects k = None"

definition connects_once :: "nat \<Rightarrow> exn option" where
  "connects_once k = (if k = 0 then None else Some (Exn OtherException ''Connection refused''))"


text \<open>
  A job with a one-node workflow, and an engine that is running, accepts the workflow as
  prompt \<open>abc\<close>, reports its completion over the websocket and has a history record for
  it. The three environments differ in that record and in the bucket: no outputs at all;
  one node whose only image is a temporary preview; and one node with one stored image,
  to be uploaded to a bucket that refuses the upload.
\<close>

definition example_job :: pyval where
  "example_job =
     PDict [(''id'', PStr ''job-1''),
            (''input'', PDict [(''workflow'',
                                PDict [(''3'', PDict [(''class_type'', PStr ''KSampler'')])])])]"

definition history_of :: "pyval \<Rightarrow> exn + response" where
  "history_of outputs = Inr (json_response (PDict [(''abc'', PDict [(''outputs'', outputs)])]))"

definition engine :: "pyval \<Rightarrow> string option \<Rightarrow> env" where
  "engine outputs bucket =
     \<lparr> comfy_host = ''127.0.0.1:8188'',
       reconnect_attempts = 5,
       bucket_endpoint_url = bucket,
       process_running = True,
       popen = None,
       startup_probe = (\<lambda>i. Response 200),
       reachable_probe = (\<lambda>i. Response 200),
       upload_post = (\<lambda>i. Inr (json_response (PDict []))),
       prompt_post = Inr (json_response (PDict [(''prompt_id'', PStr ''abc'')])),
       websocket_importable = True,
       ws_connect = always_connects,
       ws_frames = [Received (Text completion_abc_text)],
       poll_rounds = [],
       history_get = history_of outputs,
       view_get = (\<lambda>k. Inr ((json_response PNone) \<lparr> content := ''hello'' \<rparr>)),
       rp_upload_import = (\<lambda>k. None),
       named_temporary_file = (\<lambda>k suffix. Inr (''/tmp/tmpk3x9'' @ suffix)),
       write_scratch = (\<lambda>k. None),
       upload_image = (\<lambda>k. Inl (Exn OtherException ''Access Denied'')),
       os_remove = (\<lambda>k. None) \<rparr>"

definition no_outputs :: pyval where
  "no_outputs = PDict []"

definition preview_only :: pyval where
  "preview_only =
     PDict [(''9'', PDict [(''images'',
              PList [PDict [(''filename'', PStr ''ComfyUI_temp_00001_.png''),
                            (''subfolder'', PStr ''''), (''type'', PStr ''temp'')]])])]"

definition one_image :: pyval where
  "one_image =
     PDict [(''9'', PDict [(''images'',
              PList [PDict [(''filename'', PStr ''ComfyUI_00001_.png''),
                            (''subfolder'', PStr ''''), (''type'', PStr ''output'')]])])]"


section \<open>Properties of the readiness prober\<close>

lemma check_server_from_200:
  "time_sleep py delay = None \<Longrightarrow> j < k \<Longrightarrow> \<forall>l < j. \<not> fatal_attempt (get (i + l)) \<Longrightarrow>
   get (i + j) = Response 200 \<Longrightarrow> check_server_from py get delay i k = Inr True"
proof (induction k arbitrary: i j)
  case 0
  then show ?case by simp
next
  case (Suc k)
  show ?case
  proof (cases j)
    case 0
    with Suc.prems show ?thesis by (simp add: check_attempt_def)
  next
    case (Suc j')
    with Suc.prems have "j' < k" and "get (Suc i + j') = Response 200" by simp_all
    moreover have "\<forall>l < j'. \<not> fatal_attempt (get (Suc i + l))"
    proof (intro allI impI)
      fix l assume "l < j'"
      with Suc have "Suc l < j" by simp
      with Suc.prems(3) have "\<not> fatal_attempt (get (i + Suc l))" by blast
      then show "\<not> fatal_attempt (get (Suc i + l))" by simp
    qed
    ultimately have IH: "check_server_from py get delay (Suc i) k = Inr True"
      using Suc.prems(1) Suc.IH by blast
    from Suc Suc.prems(3) have "\<not> fatal_attempt (get (i + 0))" by blast
    then have "\<exists>b. check_attempt (get i) = Inr b"
      by (cases "get i") (auto simp add: fatal_attempt_def check_attempt_def)
    with IH Suc.prems(1) show ?thesis by (auto split: bool.split)
  qed
qed

lemma check_server_from_all_failed:
  "time_sleep py delay = None \<Longrightarrow> \<forall>j < k. failed_attempt (get (i + j)) \<Longrightarrow>
   check_server_from py get delay i k = Inr False"
proof (induction k arbitrary: i)
  case 0
  then show ?case by simp
next
  case (Suc k)
  have "\<forall>j < k. failed_attempt (get (Suc i + j))"
  proof (intro allI impI)
    fix j assume "j < k"
    then have "Suc j < Suc k" by simp
    with Suc.prems(2) have "failed_attempt (get (i + Suc j))" by blast
    then show "failed_attempt (get (Suc i + j))" by simp
  qed
  with Suc.prems(1) have IH: "check_server_from py get delay (Suc i) k = Inr False"
    by (rule Suc.IH)
  from Suc.prems(2) have "failed_attempt (get (i + 0))" by blast
  then have "check_attempt (get i) = Inr False"
    by (cases "get i") (simp_all add: failed_attempt_def check_attempt_def)
  with IH Suc.prems(1) show ?case by simp
qed

text \<open>
  Claim C4, as the code has it. With a sleep between attempts that does not raise: an
  attempt within the retry budget whose request yields status code exactly 200, reached
  without an exception that no clause catches, makes \<open>check_server\<close> return true; and when
  every attempt of the budget yields a response with another status --- any other,
  the other 200-class codes included --- or a \<open>RequestException\<close>, each of them is a
  failed attempt and \<open>check_server\<close> returns false.
\<close>

theorem check_server_status_200:
  assumes "time_sleep py delay = None"
  shows "(i < nat retries \<and> (\<forall>j < i. \<not> fatal_attempt (get j)) \<and> get i = Response 200
            \<longrightarrow> check_server py get retries delay = Inr True)
       \<and> ((\<forall>j < nat retries. failed_attempt (get j))
            \<longrightarrow> check_server py get retries delay = Inr False)"
proof (intro conjI impI)
  assume "i < nat retries \<and> (\<forall>j < i. \<not> fatal_attempt (get j)) \<and> get i = Response 200"
  with assms show "check_server py get retries delay = Inr True"
    unfolding check_server_def
    using check_server_from_200 [of py delay i "nat retries" get 0] by simp
next
  assume "\<forall>j < nat retries. failed_attempt (get j)"
  with assms show "check_server py get retries delay = Inr False"
    unfolding check_server_def
    using check_server_from_all_failed [of py delay "nat retries" get 0] by simp
qed

theorem check_server_status_200_witness:
  "check_server example_python
     (\<lambda>n. if n = 2 then Response 200 else Get_raised (Exn RequestsTimeout ''timed out'')) 500 50
   = Inr True
   \<and> check_server example_python (\<lambda>n. if n = 1 then Response 201 else Response 503) 3 50
   = Inr False"
proof
  let ?get = "\<lambda>n::nat. if n = 2 then Response 200 else Get_raised (Exn RequestsTimeout ''timed out'')"
  have s: "time_sleep example_python 50 = None"
    by (simp add: time_sleep_def example_python_def)
  have "(2::nat) < nat 500 \<and> (\<forall>j < 2. \<not> fatal_attempt (?get j)) \<and> ?get 2 = Response 200"
    by (simp add: fatal_attempt_def is_RequestException_def)
  with check_server_status_200 [OF s, of 2 500 ?get]
  show "check_server example_python ?get 500 50 = Inr True" by blast
  let ?bad = "\<lambda>n::nat. if n = 1 then Response 201 else Response 503"
  have "\<forall>j < nat 3. failed_attempt (?bad j)"
    by (simp add: failed_attempt_def)
  with check_server_status_200 [OF s, of 0 3 ?bad]
  show "check_server example_python ?bad 3 50 = Inr False" by blast
qed

text \<open>
  Claim C4 as stated fails: 204 is a 200-class status, yet a prober whose every attempt
  receives it returns false once its attempts are used up.
\<close>

theorem check_server_204_counterexample:
  "(200::int) \<le> 204 \<and> (204::int) < 300
   \<and> check_server example_python (\<lambda>i. Response 204) 3 50 = Inr False"
  by (simp add: check_server_def numeral_3_eq_3 check_attempt_def time_sleep_def
        example_python_def)


section \<open>The interpreter fragment on its texts\<close>

lemmas example_texts =
  status_text_def null_status_text_def completion_abc_text_def completion_xyz_text_def
  error_abc_text_def empty_workflow_text_def executing_node_abc_text_def progress_abc_text_def
  good_workflow_text_def

lemma loads_status_text:
  "json_loads example_python status_text =
     Inr (PDict [(''type'', PStr ''status''),
                 (''data'', PDict [(''status'', PDict [(''exec_info'', PDict [(''queue_remaining'', PInt 1)])])])])"
  by (simp add: example_python_def json_table_def example_texts)

lemma loads_null_status_text:
  "json_loads example_python null_status_text =
     Inr (PDict [(''type'', PStr ''status''), (''data'', PNone)])"
  by (simp add: example_python_def json_table_def example_texts)

lemma loads_completion_abc_text:
  "json_loads example_python completion_abc_text =
     Inr (PDict [(''type'', PStr ''executing''),
                 (''data'', PDict [(''node'', PNone), (''prompt_id'', PStr ''abc'')])])"
  by (simp add: example_python_def json_table_def example_texts)

lemma loads_completion_xyz_text:
  "json_loads example_python completion_xyz_text =
     Inr (PDict [(''type'', PStr ''executing''),
                 (''data'', PDict [(''node'', PNone), (''prompt_id'', PStr ''xyz'')])])"
  by (simp add: example_python_def json_table_def example_texts)

lemma loads_error_abc_text:
  "json_loads example_python error_abc_text =
     Inr (PDict [(''type'', PStr ''execution_error''),
                 (''data'', PDict [(''prompt_id'', PStr ''abc''), (''node_id'', PStr ''3''),
                                   (''node_type'', PStr ''KSampler''),
                                   (''exception_message'', PStr ''boom'')])])"
  by (simp add: example_python_def json_table_def example_texts)

lemma loads_empty_workflow_text:
  "json_loads example_python empty_workflow_text = Inr (PDict [(''workflow'', PDict [])])"
  by (simp add: example_python_def json_table_def example_texts)

lemma loads_executing_node_abc_text:
  "json_loads example_python executing_node_abc_text =
     Inr (PDict [(''type'', PStr ''executing''),
                 (''data'', PDict [(''node'', PStr ''3''), (''prompt_id'', PStr ''abc'')])])"
  by (simp add: example_python_def json_table_def example_texts)

lemma loads_progress_abc_text:
  "json_loads example_python progress_abc_text =
     Inr (PDict [(''type'', PStr ''progress''),
                 (''data'', PDict [(''value'', PInt 1), (''max'', PInt 20),
                                   (''prompt_id'', PStr ''abc'')])])"
  by (simp add: example_python_def json_table_def example_texts)

lemma loads_good_workflow_text:
  "json_loads example_python good_workflow_text =
     Inr (PDict [(''workflow'', PDict [(''3'', PDict [(''class_type'', PStr ''KSampler'')])])])"
  by (simp add: example_python_def json_table_def example_texts)


section \<open>Properties of the stream monitor\<close>

lemma and_then_Inr [simp]: "and_then (Inr x) f = f x"
  by (simp add: and_then_def)

lemma and_then_Inl [simp]: "and_then (Inl e) f = Inl e"
  by (simp add: and_then_def)

lemma object_or_absent_Some:
  "object_or_absent v = Some d \<Longrightarrow> (v = None \<and> d = []) \<or> v = Some (PDict d)"
  by (cases v) (auto simp: object_or_absent_def split: pyval.splits)

lemma object_or_absent_get:
  "object_or_absent (map_of kvs k) = Some d \<Longrightarrow> py_get (PDict kvs) k (PDict []) = Inr (PDict d)"
  by (drule object_or_absent_Some) auto

lemma status_message_shape:
  assumes "status_message m"
  obtains kvs d sd ei where "m = PDict kvs" "map_of kvs ''type'' = Some (PStr ''status'')"
    "object_or_absent (map_of kvs ''data'') = Some d"
    "object_or_absent (map_of d ''status'') = Some sd"
    "object_or_absent (map_of sd ''exec_info'') = Some ei"
proof (cases m)
  case (PDict kvs)
  with assms show ?thesis
    using that by (auto simp: status_message_def split: option.splits)
qed (use assms in \<open>simp_all add: status_message_def\<close>)

lemma on_message_status:
  assumes "status_message m"
  shows "on_message py X st m = Inr Continue"
proof -
  from assms obtain kvs d sd ei where m: "m = PDict kvs"
    and t: "map_of kvs ''type'' = Some (PStr ''status'')"
    and d: "object_or_absent (map_of kvs ''data'') = Some d"
    and sd: "object_or_absent (map_of d ''status'') = Some sd"
    and ei: "object_or_absent (map_of sd ''exec_info'') = Some ei"
    by (rule status_message_shape)
  have g0: "py_get (PDict kvs) ''type'' PNone = Inr (PStr ''status'')"
    using t by simp
  obtain v where g4: "py_get (PDict ei) ''queue_remaining'' (PStr ''N/A'') = Inr v"
    by simp
  show ?thesis
    unfolding on_message_def m
    by (simp only: g0 g4 object_or_absent_get [OF d] object_or_absent_get [OF sd]
          object_or_absent_get [OF ei] and_then_Inr)
      simp
qed

lemma other_prompt_message_shape:
  assumes "other_prompt_message X m"
  obtains kvs d pid where "m = PDict kvs" "map_of kvs ''type'' \<noteq> Some (PStr ''status'')"
    "map_of kvs ''data'' = Some (PDict d)" "map_of d ''prompt_id'' = Some pid" "pid \<noteq> PStr X"
proof (cases m)
  case (PDict kvs)
  with assms show ?thesis
    using that by (auto simp: other_prompt_message_def split: option.splits pyval.splits)
qed (use assms in \<open>simp_all add: other_prompt_message_def\<close>)

lemma on_message_other_prompt:
  assumes "other_prompt_message X m"
  shows "on_message py X st m = Inr Continue"
proof -
  from assms obtain kvs d pid where m: "m = PDict kvs"
    and t: "map_of kvs ''type'' \<noteq> Some (PStr ''status'')"
    and d: "map_of kvs ''data'' = Some (PDict d)"
    and p: "map_of d ''prompt_id'' = Some pid" "pid \<noteq> PStr X"
    by (rule other_prompt_message_shape)
  show ?thesis
    unfolding on_message_def m
    using t by (simp add: d p split: option.splits)
qed

lemma on_message_ignored:
  assumes "ignored_message X m"
  shows "on_message py X st m = Inr Continue"
proof (cases m)
  case (PDict kvs)
  consider (status) "map_of kvs ''type'' = Some (PStr ''status'')"
    | (executing) "map_of kvs ''type'' = Some (PStr ''executing'')"
    | (error) "map_of kvs ''type'' = Some (PStr ''execution_error'')"
    | (other) "map_of kvs ''type'' \<noteq> Some (PStr ''status'')"
        "map_of kvs ''type'' \<noteq> Some (PStr ''executing'')"
        "map_of kvs ''type'' \<noteq> Some (PStr ''execution_error'')"
    by blast
  then show ?thesis
  proof cases
    case status
    with assms PDict have "status_message m" by (simp add: ignored_message_def)
    then show ?thesis by (rule on_message_status)
  next
    case executing
    with assms PDict obtain d where d: "object_or_absent (map_of kvs ''data'') = Some d"
      and nt: "\<not> ((map_of d ''node'' = None \<or> map_of d ''node'' = Some PNone)
                  \<and> map_of d ''prompt_id'' = Some (PStr X))"
      by (auto simp add: ignored_message_def split: option.splits)
    have g0: "py_get (PDict kvs) ''type'' PNone = Inr (PStr ''executing'')"
      using executing by simp
    have g1: "py_get (PDict kvs) ''data'' (PDict []) = Inr (PDict d)"
      using d by (rule object_or_absent_get)
    from nt show ?thesis
      unfolding on_message_def PDict
      by (simp only: g0 g1 and_then_Inr) (auto split: option.splits)
  next
    case error
    with assms PDict obtain d where d: "object_or_absent (map_of kvs ''data'') = Some d"
      and nt: "map_of d ''prompt_id'' \<noteq> Some (PStr X)"
      by (auto simp add: ignored_message_def split: option.splits)
    have g0: "py_get (PDict kvs) ''type'' PNone = Inr (PStr ''execution_error'')"
      using error by simp
    have g1: "py_get (PDict kvs) ''data'' (PDict []) = Inr (PDict d)"
      using d by (rule object_or_absent_get)
    from nt show ?thesis
      unfolding on_message_def PDict
      by (simp only: g0 g1 and_then_Inr) (auto split: option.splits)
  next
    case other
    then show ?thesis
      unfolding on_message_def PDict
      by (auto split: option.splits)
  qed
qed (use assms in \<open>simp_all add: ignored_message_def\<close>)

lemma status_message_ignored:
  "status_message m \<Longrightarrow> ignored_message X m"
  by (erule status_message_shape) (simp add: ignored_message_def status_message_def)

lemma other_prompt_message_ignored:
  assumes "other_prompt_message X m"
  shows "ignored_message X m"
proof -
  from assms obtain kvs d pid where m: "m = PDict kvs"
    and t: "map_of kvs ''type'' \<noteq> Some (PStr ''status'')"
    and d: "map_of kvs ''data'' = Some (PDict d)"
    and p: "map_of d ''prompt_id'' = Some pid" "pid \<noteq> PStr X"
    by (rule other_prompt_message_shape)
  then show ?thesis
    by (simp add: ignored_message_def object_or_absent_def)
qed

lemma completion_message_shape:
  assumes "completion_message X m"
  obtains kvs d where "m = PDict kvs" "map_of kvs ''type'' = Some (PStr ''executing'')"
    "map_of kvs ''data'' = Some (PDict d)" "map_of d ''node'' = Some PNone"
    "map_of d ''prompt_id'' = Some (PStr X)"
proof (cases m)
  case (PDict kvs)
  with assms show ?thesis
    using that by (auto simp: completion_message_def split: option.splits pyval.splits)
qed (use assms in \<open>simp_all add: completion_message_def\<close>)

lemma on_message_completion:
  assumes "completion_message X m"
  shows "on_message py X st m = Inr (Break (True, snd st))"
proof -
  from assms obtain kvs d where m: "m = PDict kvs"
    and t: "map_of kvs ''type'' = Some (PStr ''executing'')"
    and d: "map_of kvs ''data'' = Some (PDict d)"
    and n: "map_of d ''node'' = Some PNone"
    and p: "map_of d ''prompt_id'' = Some (PStr X)"
    by (rule completion_message_shape)
  show ?thesis
    unfolding on_message_def m
    by (simp add: t d n p)
qed

lemma execution_error_message_shape:
  assumes "execution_error_message X m"
  obtains kvs d where "m = PDict kvs" "map_of kvs ''type'' = Some (PStr ''execution_error'')"
    "map_of kvs ''data'' = Some (PDict d)" "map_of d ''prompt_id'' = Some (PStr X)"
proof (cases m)
  case (PDict kvs)
  with assms show ?thesis
    using that by (auto simp: execution_error_message_def split: option.splits pyval.splits)
qed (use assms in \<open>simp_all add: execution_error_message_def\<close>)

lemma on_message_execution_error:
  assumes "execution_error_message X m"
  shows "\<exists>e. e \<noteq> [] \<and> on_message py X st m = Inr (Break (fst st, snd st @ [e]))"
proof -
  from assms obtain kvs d where m: "m = PDict kvs"
    and t: "map_of kvs ''type'' = Some (PStr ''execution_error'')"
    and d: "map_of kvs ''data'' = Some (PDict d)"
    and p: "map_of d ''prompt_id'' = Some (PStr X)"
    by (rule execution_error_message_shape)
  show ?thesis
    unfolding on_message_def m
    by (simp add: t d p Let_def)
qed

lemma on_message_Break:
  assumes "on_message py X st m = Inr (Break st')"
  shows "st' = (True, snd st) \<or> (\<exists>e. st' = (fst st, snd st @ [e]))"
proof (cases m)
  case (PDict kvs)
  from assms show ?thesis
    unfolding on_message_def PDict
    by (auto simp: and_then_def Let_def split: if_splits sum.splits)
qed (use assms in \<open>simp_all add: on_message_def\<close>)

lemma monitor_loop_noise:
  assumes "noise py X r"
  shows "monitor_loop py N connect X st k (r # rs) = monitor_loop py N connect X st k rs"
proof (cases r)
  case (RecvRaised e)
  with assms show ?thesis by (simp add: noise_def loop_body_def)
next
  case (Received f)
  show ?thesis
  proof (cases f)
    case Binary
    with Received show ?thesis by (simp add: loop_body_def)
  next
    case (Text out)
    show ?thesis
    proof (cases "json_loads py out")
      case (Inl e)
      with assms Received Text have "is_JSONDecodeError e"
        by (simp add: noise_def)
      with Inl Received Text show ?thesis
        by (auto simp add: loop_body_def is_JSONDecodeError_def)
    next
      case (Inr m)
      with assms Received Text have "ignored_message X m"
        by (simp add: noise_def)
      then have "on_message py X st m = Inr Continue"
        by (rule on_message_ignored)
      with Inr Received Text show ?thesis
        by (simp add: loop_body_def)
    qed
  qed
qed

lemma monitor_loop_noise_prefix:
  "\<forall>r \<in> set pre. noise py X r \<Longrightarrow>
   monitor_loop py N connect X st k (pre @ rs) = monitor_loop py N connect X st k rs"
  by (induction pre) (simp_all add: monitor_loop_noise del: monitor_loop.simps)

lemma monitor_loop_text:
  "json_loads py out = Inr m \<Longrightarrow>
   monitor_loop py N connect X st k (Received (Text out) # rs) =
     (case on_message py X st m of
        Inr (Break st') \<Rightarrow> Returned st'
      | Inr Continue \<Rightarrow> monitor_loop py N connect X st k rs
      | Inl e \<Rightarrow>
          if exn_class_of e = WebSocketTimeoutException
          then monitor_loop py N connect X st k rs
          else if exn_class_of e = WebSocketConnectionClosedException
          then (case reconnect connect N 0 (nat N) k of
                  Inl reconn_err \<Rightarrow> Raised reconn_err
                | Inr k' \<Rightarrow> monitor_loop py N connect X st k' rs)
          else if is_JSONDecodeError e
          then monitor_loop py N connect X st k rs
          else Raised e)"
  by (simp add: loop_body_def)

lemma reconnect_all_fail:
  "(\<forall>i < left. connect (k + i) \<noteq> None) \<Longrightarrow> 0 < left \<Longrightarrow> int attempt + int left = N \<Longrightarrow>
   reconnect connect N attempt left k = Inl (the (connect (k + left - 1)))"
proof (induction left arbitrary: attempt k)
  case 0
  then show ?case by simp
next
  case (Suc left)
  from Suc.prems(1) have c0: "connect k \<noteq> None" by (metis add.right_neutral zero_less_Suc)
  then obtain e where e: "connect k = Some e" by auto
  show ?case
  proof (cases left)
    case 0
    with Suc.prems e show ?thesis by simp
  next
    case (Suc l)
    have "\<forall>i<left. connect (Suc k + i) \<noteq> None"
      using Suc.prems(1) by (metis Suc_less_eq add_Suc_shift)
    moreover have "0 < left" using Suc by simp
    moreover have "int (Suc attempt) + int left = N" using Suc.prems(3) by simp
    ultimately have "reconnect connect N (Suc attempt) left (Suc k) = Inl (the (connect (Suc k + left - 1)))"
      by (rule Suc.IH)
    moreover have "int attempt \<noteq> N - 1" using Suc.prems(3) Suc by simp
    ultimately show ?thesis using e by simp
  qed
qed

lemma monitor_loop_invariant:
  "monitor_loop py N connect X (False, []) k rs = Returned (done, errors) \<Longrightarrow>
   (done \<and> errors = []) \<or> (\<not> done \<and> errors \<noteq> [])"
proof (induction rs arbitrary: k)
  case Nil
  then show ?case by simp
next
  case (Cons r rs)
  show ?case
  proof (cases "loop_body py X (False, []) r")
    case (Inl e)
    with Cons.prems Cons.IH show ?thesis
      by (auto split: if_splits sum.splits)
  next
    case (Inr s)
    show ?thesis
    proof (cases s)
      case Continue
      with Inr Cons.prems Cons.IH show ?thesis by auto
    next
      case (Break st')
      with Inr Cons.prems have st': "st' = (done, errors)" by simp
      from Inr Break obtain m where "on_message py X (False, []) m = Inr (Break st')"
        by (auto simp: loop_body_def and_then_def split: recv_result.splits frame.splits sum.splits)
      from on_message_Break [OF this] st' show ?thesis by auto
    qed
  qed
qed


text \<open>
  Claim C9: a pair \<open>(done, errors)\<close> that \<open>process_with_websocket\<close> returns normally is
  either \<open>(True, [])\<close> or has \<open>done = False\<close> and a non-empty \<open>errors\<close>; the pair
  \<open>(False, [])\<close> is never returned.
\<close>

theorem websocket_result_never_false_empty:
  "process_with_websocket py N connect frames X = Returned (done, errors) \<Longrightarrow>
   (done \<and> errors = []) \<or> (\<not> done \<and> errors \<noteq> [])"
  by (cases "connect 0") (auto simp: process_with_websocket_def dest: monitor_loop_invariant)

theorem websocket_result_never_false_empty_witness:
  "process_with_websocket example_python 5 always_connects
     [RecvRaised (Exn WebSocketTimeoutException ''timed out''),
      Received (Text completion_abc_text)]
     ''abc'' = Returned (True, [])
   \<and> ((True \<and> ([]::string list) = []) \<or> (\<not> True \<and> ([]::string list) \<noteq> []))"
proof -
  have run: "process_with_websocket example_python 5 always_connects
     [RecvRaised (Exn WebSocketTimeoutException ''timed out''),
      Received (Text completion_abc_text)]
     ''abc'' = Returned (True, [])"
    by (simp add: process_with_websocket_def always_connects_def loop_body_def
          loads_completion_abc_text on_message_def)
  from websocket_result_never_false_empty [OF run] run show ?thesis by simp
qed


lemma monitor_loop_reconnect_exhausted:
  assumes "0 < N" and "exn_class_of sig = WebSocketConnectionClosedException"
    and "\<forall>i < nat N. connect (k + i) = Some (failure i)"
  shows "monitor_loop py N connect X st k (RecvRaised sig # rest) = Raised (failure (nat N - 1))"
proof -
  from assms(3) have "\<forall>i < nat N. connect (k + i) \<noteq> None" by simp
  moreover from assms(1) have "0 < nat N" and "int 0 + int (nat N) = N" by simp_all
  ultimately have "reconnect connect N 0 (nat N) k = Inl (the (connect (k + nat N - 1)))"
    by (rule reconnect_all_fail)
  moreover have "connect (k + (nat N - 1)) = Some (failure (nat N - 1))"
  proof -
    from assms(1) have "nat N - 1 < nat N" by simp
    with assms(3) show ?thesis by blast
  qed
  moreover from assms(1) have "k + nat N - 1 = k + (nat N - 1)" by simp
  ultimately have "reconnect connect N 0 (nat N) k = Inl (failure (nat N - 1))" by simp
  with assms(2) show ?thesis by (simp add: loop_body_def)
qed

text \<open>
  Claim C1, as the code has it: with \<open>N \<ge> 1\<close> reconnection attempts configured, when a
  channel-closed signal arrives and each of the \<open>N\<close> attempts fails, the monitor raises
  the exception of the last attempt to its caller and returns no \<open>(done, errors)\<close> pair.
  This holds at any point of the loop, and for a run in which only noise precedes the
  closure.
\<close>

theorem reconnect_exhaustion_raises:
  assumes "0 < N" and "exn_class_of sig = WebSocketConnectionClosedException"
  shows "(connect 0 = None \<and> (\<forall>r \<in> set pre. noise py X r)
            \<and> (\<forall>i < nat N. connect (Suc i) = Some (failure i))
          \<longrightarrow> process_with_websocket py N connect (pre @ RecvRaised sig # rest) X
                = Raised (failure (nat N - 1)))
       \<and> (\<forall>st k. (\<forall>i < nat N. connect (k + i) = Some (failure i))
          \<longrightarrow> monitor_loop py N connect X st k (RecvRaised sig # rest)
                = Raised (failure (nat N - 1)))"
proof (intro conjI impI allI)
  fix st k
  assume "\<forall>i < nat N. connect (k + i) = Some (failure i)"
  with assms show "monitor_loop py N connect X st k (RecvRaised sig # rest)
                   = Raised (failure (nat N - 1))"
    by (rule monitor_loop_reconnect_exhausted)
next
  assume h: "connect 0 = None \<and> (\<forall>r \<in> set pre. noise py X r)
             \<and> (\<forall>i < nat N. connect (Suc i) = Some (failure i))"
  then have "\<forall>i < nat N. connect (1 + i) = Some (failure i)" by simp
  with assms have "monitor_loop py N connect X (False, []) 1 (RecvRaised sig # rest)
                   = Raised (failure (nat N - 1))"
    by (rule monitor_loop_reconnect_exhausted)
  with h show "process_with_websocket py N connect (pre @ RecvRaised sig # rest) X
               = Raised (failure (nat N - 1))"
    by (simp add: process_with_websocket_def monitor_loop_noise_prefix del: monitor_loop.simps)
qed

theorem reconnect_exhaustion_raises_witness:
  "process_with_websocket example_python 2 connects_once
     ([Received Binary] @
        RecvRaised (Exn WebSocketConnectionClosedException ''Connection to remote host was lost.'') # [])
     ''abc''
   = Raised (Exn OtherException ''Connection refused'')"
proof -
  have n: "noise example_python ''abc'' (Received Binary)" by (simp add: noise_def)
  have c: "\<forall>i < nat 2. connects_once (Suc i) = Some (Exn OtherException ''Connection refused'')"
    by (simp add: connects_once_def)
  have z: "connects_once 0 = None" by (simp add: connects_once_def)
  have cl: "exn_class_of (Exn WebSocketConnectionClosedException ''Connection to remote host was lost.'')
            = WebSocketConnectionClosedException" by simp
  from reconnect_exhaustion_raises [OF _ cl, of 2 connects_once "[Received Binary]" example_python
        "''abc''" "\<lambda>i. Exn OtherException ''Connection refused''" "[]"] n c z
  show ?thesis by simp
qed

text \<open>
  Claim C1 as stated fails: with one reconnection attempt configured, a closure followed
  by a refused reconnection makes \<open>process_with_websocket\<close> raise the refusal; no
  \<open>(done, errors)\<close> pair is returned.
\<close>

theorem reconnect_exhaustion_counterexample:
  "process_with_websocket example_python 1 connects_once
     [RecvRaised (Exn WebSocketConnectionClosedException ''Connection to remote host was lost.'')]
     ''abc''
   = Raised (Exn OtherException ''Connection refused'')"
  by (simp add: process_with_websocket_def connects_once_def loop_body_def)


lemma monitor_loop_closure:
  assumes "exn_class_of e = WebSocketConnectionClosedException"
    and "reconnect connect N 0 (nat N) k = Inr k'"
  shows "monitor_loop py N connect X st k (RecvRaised e # rs)
         = monitor_loop py N connect X st k' rs"
  using assms by (simp add: loop_body_def)

lemma undisturbed_Cons:
  assumes "undisturbed py N connect X k (r # rs)"
  shows "(noise py X r \<and> undisturbed py N connect X k rs)
       \<or> (\<exists>e k'. r = RecvRaised e \<and> exn_class_of e = WebSocketConnectionClosedException
             \<and> reconnect connect N 0 (nat N) k = Inr k' \<and> undisturbed py N connect X k' rs)"
proof (cases r)
  case (Received f)
  with assms show ?thesis by simp
next
  case (RecvRaised e)
  with assms show ?thesis by (auto split: if_splits sum.splits)
qed

lemma monitor_loop_undisturbed:
  "undisturbed py N connect X k pre \<Longrightarrow>
   \<exists>k'. \<forall>st rs. monitor_loop py N connect X st k (pre @ rs) = monitor_loop py N connect X st k' rs"
proof (induction pre arbitrary: k)
  case Nil
  show ?case by (rule exI [of _ k]) simp
next
  case (Cons r pre)
  from undisturbed_Cons [OF Cons.prems]
  show ?case
  proof
    assume a: "noise py X r \<and> undisturbed py N connect X k pre"
    then obtain k' where k': "\<forall>st rs. monitor_loop py N connect X st k (pre @ rs)
                                    = monitor_loop py N connect X st k' rs"
      using Cons.IH by blast
    from a have "\<forall>st rs. monitor_loop py N connect X st k (r # pre @ rs)
                        = monitor_loop py N connect X st k (pre @ rs)"
      by (simp add: monitor_loop_noise del: monitor_loop.simps)
    with k' have "\<forall>st rs. monitor_loop py N connect X st k ((r # pre) @ rs)
                         = monitor_loop py N connect X st k' rs"
      by (simp del: monitor_loop.simps)
    then show ?thesis by (rule exI)
  next
    assume "\<exists>e k1. r = RecvRaised e \<and> exn_class_of e = WebSocketConnectionClosedException
              \<and> reconnect connect N 0 (nat N) k = Inr k1 \<and> undisturbed py N connect X k1 pre"
    then obtain e k1 where r: "r = RecvRaised e"
      and c: "exn_class_of e = WebSocketConnectionClosedException"
      and rc: "reconnect connect N 0 (nat N) k = Inr k1"
      and u: "undisturbed py N connect X k1 pre"
      by blast
    from u obtain k' where k': "\<forall>st rs. monitor_loop py N connect X st k1 (pre @ rs)
                                     = monitor_loop py N connect X st k' rs"
      using Cons.IH by blast
    from c rc have "\<forall>st rs. monitor_loop py N connect X st k (RecvRaised e # pre @ rs)
                          = monitor_loop py N connect X st k1 (pre @ rs)"
      by (simp add: monitor_loop_closure del: monitor_loop.simps)
    with k' r have "\<forall>st rs. monitor_loop py N connect X st k ((r # pre) @ rs)
                           = monitor_loop py N connect X st k' rs"
      by (simp del: monitor_loop.simps)
    then show ?thesis by (rule exI)
  qed
qed

lemma websocket_after_undisturbed:
  assumes "connect 0 = None" and "undisturbed py N connect X 1 pre"
  shows "\<exists>k. \<forall>rs. process_with_websocket py N connect (pre @ rs) X
                   = monitor_loop py N connect X (False, []) k rs"
proof -
  from assms(2) obtain k where
    "\<forall>st rs. monitor_loop py N connect X st 1 (pre @ rs) = monitor_loop py N connect X st k rs"
    using monitor_loop_undisturbed by blast
  with assms(1) have "\<forall>rs. process_with_websocket py N connect (pre @ rs) X
                          = monitor_loop py N connect X (False, []) k rs"
    by (simp add: process_with_websocket_def del: monitor_loop.simps)
  then show ?thesis by (rule exI)
qed

lemma first_text_returns:
  assumes "json_loads py out = Inr m" and "on_message py X st m = Inr (Break st')"
  shows "monitor_loop py N connect X st k (Received (Text out) # rest) = Returned st'"
  using assms by (simp add: loop_body_def)

lemma on_message_completion_start:
  assumes "completion_message X m"
  shows "on_message py X (False, []) m = Inr (Break (True, []))"
  using on_message_completion [OF assms, of py "(False, [])"] by simp

lemma on_message_execution_error_start:
  assumes "execution_error_message X m"
  shows "\<exists>e. e \<noteq> [] \<and> on_message py X (False, []) m = Inr (Break (False, [e]))"
  using on_message_execution_error [OF assms, of py "(False, [])"] by simp

text \<open>
  Claim C5, as the code has it. The monitor stops at the first terminal message for its
  prompt \<open>X\<close>. Take a run in which the first connection succeeds and nothing before a
  given text frame disturbs the monitor: every earlier receive is a timeout, a binary
  frame, text that is not JSON, a message the monitor passes over (a status message with
  object-shaped payload, a progress report or any other type, an \<open>executing\<close> message
  that names a node or is not for \<open>X\<close>, an error of another prompt), or a closure that a
  reconnection recovers. If that frame is the completion message for \<open>X\<close> the monitor
  returns \<open>(True, [])\<close>; if it is an execution error for \<open>X\<close> the monitor returns \<open>False\<close>
  with one non-empty error. Every noise frame leaves the loop as it was, a recovered
  closure changes only the count of connection calls, and the status messages and the
  messages that carry the id of another prompt are noise.
\<close>

theorem stream_monitor_first_terminal:
  assumes "connect 0 = None" and "undisturbed py N connect X 1 pre"
    and "json_loads py out = Inr m"
  shows "(completion_message X m \<longrightarrow>
            process_with_websocket py N connect (pre @ Received (Text out) # rest) X
            = Returned (True, []))
       \<and> (execution_error_message X m \<longrightarrow>
            (\<exists>e. e \<noteq> [] \<and>
               process_with_websocket py N connect (pre @ Received (Text out) # rest) X
               = Returned (False, [e])))
       \<and> (\<forall>r st k rs. noise py X r \<longrightarrow>
            monitor_loop py N connect X st k (r # rs) = monitor_loop py N connect X st k rs)
       \<and> (\<forall>e st k k' rs.
            exn_class_of e = WebSocketConnectionClosedException
            \<and> reconnect connect N 0 (nat N) k = Inr k' \<longrightarrow>
            monitor_loop py N connect X st k (RecvRaised e # rs)
            = monitor_loop py N connect X st k' rs)
       \<and> (\<forall>out' m'. json_loads py out' = Inr m'
            \<and> (status_message m' \<or> other_prompt_message X m') \<longrightarrow>
            noise py X (Received (Text out')))"
proof (intro conjI impI allI)
  from assms(1,2) obtain k0 where
    start: "\<forall>rs. process_with_websocket py N connect (pre @ rs) X
                 = monitor_loop py N connect X (False, []) k0 rs"
    using websocket_after_undisturbed by blast
  {
    assume "completion_message X m"
    then have "on_message py X (False, []) m = Inr (Break (True, []))"
      by (rule on_message_completion_start)
    with assms(3)
    have "monitor_loop py N connect X (False, []) k0 (Received (Text out) # rest)
          = Returned (True, [])"
      by (rule first_text_returns)
    with start
    show "process_with_websocket py N connect (pre @ Received (Text out) # rest) X
          = Returned (True, [])"
      by (simp del: monitor_loop.simps)
  }
  {
    assume "execution_error_message X m"
    then obtain e where e: "e \<noteq> []"
      and br: "on_message py X (False, []) m = Inr (Break (False, [e]))"
      using on_message_execution_error_start by blast
    from assms(3) br
    have "monitor_loop py N connect X (False, []) k0 (Received (Text out) # rest)
          = Returned (False, [e])"
      by (rule first_text_returns)
    with start
    have "process_with_websocket py N connect (pre @ Received (Text out) # rest) X
          = Returned (False, [e])"
      by (simp del: monitor_loop.simps)
    with e
    show "\<exists>e. e \<noteq> [] \<and>
            process_with_websocket py N connect (pre @ Received (Text out) # rest) X
            = Returned (False, [e])"
      by (intro exI conjI)
  }
  {
    fix r st k rs
    assume "noise py X r"
    then show "monitor_loop py N connect X st k (r # rs) = monitor_loop py N connect X st k rs"
      by (rule monitor_loop_noise)
  }
  {
    fix e st k k' rs
    assume "exn_class_of e = WebSocketConnectionClosedException
            \<and> reconnect connect N 0 (nat N) k = Inr k'"
    then show "monitor_loop py N connect X st k (RecvRaised e # rs)
               = monitor_loop py N connect X st k' rs"
      by (simp add: monitor_loop_closure del: monitor_loop.simps)
  }
  {
    fix out' m'
    assume a: "json_loads py out' = Inr m' \<and> (status_message m' \<or> other_prompt_message X m')"
    then have "ignored_message X m'"
      using status_message_ignored other_prompt_message_ignored by blast
    with a show "noise py X (Received (Text out'))"
      by (simp add: noise_def)
  }
qed

theorem stream_monitor_first_terminal_witness:
  "process_with_websocket example_python 5 always_connects
     ([Received (Text status_text), Received (Text completion_xyz_text),
       Received (Text executing_node_abc_text), Received (Text progress_abc_text),
       RecvRaised (Exn WebSocketConnectionClosedException ''Connection to remote host was lost.'')]
      @ Received (Text completion_abc_text) # [])
     ''abc''
   = Returned (True, [])"
proof -
  let ?m = "PDict [(''type'', PStr ''executing''),
                   (''data'', PDict [(''node'', PNone), (''prompt_id'', PStr ''abc'')])]"
  let ?pre = "[Received (Text status_text), Received (Text completion_xyz_text),
       Received (Text executing_node_abc_text), Received (Text progress_abc_text),
       RecvRaised (Exn WebSocketConnectionClosedException ''Connection to remote host was lost.'')]"
  have c: "always_connects 0 = None" by (simp add: always_connects_def)
  have n1: "noise example_python ''abc'' (Received (Text status_text))"
    by (simp add: noise_def loads_status_text ignored_message_def status_message_def
          object_or_absent_def)
  have n2: "noise example_python ''abc'' (Received (Text completion_xyz_text))"
    by (simp add: noise_def loads_completion_xyz_text ignored_message_def object_or_absent_def)
  have n3: "noise example_python ''abc'' (Received (Text executing_node_abc_text))"
    by (simp add: noise_def loads_executing_node_abc_text ignored_message_def
          object_or_absent_def)
  have n4: "noise example_python ''abc'' (Received (Text progress_abc_text))"
    by (simp add: noise_def loads_progress_abc_text ignored_message_def)
  have rc: "reconnect always_connects 5 0 (nat 5) 1 = Inr 2"
    by (simp add: always_connects_def eval_nat_numeral)
  from n1 n2 n3 n4 rc have pre: "undisturbed example_python 5 always_connects ''abc'' 1 ?pre"
    by (simp del: reconnect.simps)
  have t: "completion_message ''abc'' ?m" by (simp add: completion_message_def)
  have "completion_message ''abc'' ?m \<longrightarrow>
        process_with_websocket example_python 5 always_connects
          (?pre @ Received (Text completion_abc_text) # []) ''abc''
        = Returned (True, [])"
    using stream_monitor_first_terminal
      [where connect = always_connects and py = example_python and X = "''abc''"
         and pre = ?pre and out = completion_abc_text and m = ?m and N = 5 and rest = "[]",
       OF c pre loads_completion_abc_text]
    by (rule conjunct1)
  with t show ?thesis by (rule rev_mp)
qed

text \<open>
  Claim C5 as stated fails on two runs that end in the completion message for \<open>abc\<close>:
  after an execution error for \<open>abc\<close> the monitor has already returned \<open>False\<close> with that
  error, and a status message whose \<open>data\<close> is \<open>null\<close> ends the monitor with an
  \<open>AttributeError\<close>.
\<close>

theorem stream_monitor_counterexample:
  "(case json_loads example_python completion_abc_text of
      Inl e \<Rightarrow> False
    | Inr m \<Rightarrow> completion_message ''abc'' m)
   \<and> process_with_websocket example_python 5 always_connects
        [Received (Text error_abc_text), Received (Text completion_abc_text)] ''abc''
      = Returned (False, [''Workflow execution error: Node Type: KSampler, Node ID: 3, Message: boom''])
   \<and> process_with_websocket example_python 5 always_connects
        [Received (Text null_status_text), Received (Text completion_abc_text)] ''abc''
      = Raised (attribute_error PNone ''get'')"
proof (intro conjI)
  show "case json_loads example_python completion_abc_text of
          Inl e \<Rightarrow> False
        | Inr m \<Rightarrow> completion_message ''abc'' m"
    by (simp add: loads_completion_abc_text completion_message_def)
  show "process_with_websocket example_python 5 always_connects
          [Received (Text error_abc_text), Received (Text completion_abc_text)] ''abc''
        = Returned (False, [''Workflow execution error: Node Type: KSampler, Node ID: 3, Message: boom''])"
    by (simp add: process_with_websocket_def always_connects_def loop_body_def
          loads_error_abc_text on_message_def)
  show "process_with_websocket example_python 5 always_connects
          [Received (Text null_status_text), Received (Text completion_abc_text)] ''abc''
        = Raised (attribute_error PNone ''get'')"
    by (simp add: process_with_websocket_def always_connects_def loop_body_def
          loads_null_status_text on_message_def attribute_error_def is_JSONDecodeError_def)
qed


section \<open>Properties of the submitter and of input validation\<close>

lemma node_error_lines_eq:
  "node_error_lines py node_id errs details =
     details @ map (\<lambda>(error_type, msg). pair_line py (node_id, error_type, msg)) errs"
  by (induction errs arbitrary: details) auto

lemma collect_details_eq:
  "\<forall>kv \<in> set items. is_dict (snd kv) \<Longrightarrow>
   collect_details py items details = details @ map (pair_line py) (node_error_pairs items)"
proof (induction items arbitrary: details)
  case Nil
  then show ?case by (simp add: node_error_pairs_def)
next
  case (Cons kv items)
  obtain node_id node_error where kv: "kv = (node_id, node_error)" by (cases kv)
  with Cons.prems obtain errs where errs: "node_error = PDict errs"
    by (cases node_error) (simp_all add: is_dict_def)
  from Cons.prems have "\<forall>kv \<in> set items. is_dict (snd kv)" by simp
  then have ih: "collect_details py items ds = ds @ map (pair_line py) (node_error_pairs items)" for ds
    by (rule Cons.IH)
  have pairs: "node_error_pairs ((node_id, PDict errs) # items)
               = map (\<lambda>(error_type, msg). (node_id, error_type, msg)) errs @ node_error_pairs items"
    by (simp add: node_error_pairs_def)
  have lines: "map (pair_line py) (map (\<lambda>(error_type, msg). (node_id, error_type, msg)) errs)
               = map (\<lambda>(error_type, msg). pair_line py (node_id, error_type, msg)) errs"
    by (induction errs) auto
  have "collect_details py ((node_id, PDict errs) # items) details
        = (details @ map (\<lambda>(error_type, msg). pair_line py (node_id, error_type, msg)) errs)
          @ map (pair_line py) (node_error_pairs items)"
    by (simp add: ih node_error_lines_eq del: pair_line.simps)
  also have "\<dots> = details @ map (pair_line py) (node_error_pairs ((node_id, PDict errs) # items))"
    by (simp add: pairs lines del: pair_line.simps)
  finally show ?case by (simp add: kv errs)
qed

lemma top_level_message_step:
  assumes "top_level_message py error_data = Some message"
  shows "and_then (py_contains (PDict error_data) ''error'') (\<lambda>has_error.
         and_then
          (if has_error then
            and_then (py_getitem (PDict error_data) ''error'') (\<lambda>error_info.
              if is_dict error_info
              then py_get error_info ''message'' (PStr ''Workflow validation failed'')
              else Inr (PStr (py_str py error_info)))
           else Inr (PStr ''Workflow validation failed''))
          K)
         = K (PStr message)"
proof (cases "map_of error_data ''error''")
  case None
  with assms show ?thesis by (simp add: top_level_message_def)
next
  case (Some v)
  show ?thesis
  proof (cases v)
    case (PDict error_info)
    with Some assms show ?thesis
      by (auto simp: top_level_message_def is_dict_def split: option.splits pyval.splits)
  qed (use Some assms in \<open>simp_all add: top_level_message_def is_dict_def\<close>)
qed

text \<open>
  Claim C7: for a response with status 400 whose JSON body is an object with a
  \<open>node_errors\<close> mapping of node ids to mappings, \<open>queue_workflow\<close> raises a \<open>ValueError\<close>
  whose text is the top-level message followed, when there is at least one
  \<open>(node, error_type)\<close> pair, by a colon and one bulleted line per pair, in the order the
  pairs are met in the mapping, joined by newlines.
\<close>

theorem validation_detail_lines:
  assumes "status_code r = 400"
    and "body_json r = Inr (PDict error_data)"
    and "map_of error_data ''node_errors'' = Some (PDict node_errors)"
    and "\<forall>kv \<in> set node_errors. is_dict (snd kv)"
    and "top_level_message py error_data = Some message"
  shows "queue_workflow py (Inr r) =
         Inl (Exn ValueError
               (message @
                (if node_error_pairs node_errors = [] then []
                 else '':'' @ newline @
                      join newline (map (\<lambda>p. bullet @ pair_line py p)
                                        (node_error_pairs node_errors)))))"
proof -
  have details: "collect_details py node_errors [] = map (pair_line py) (node_error_pairs node_errors)"
    using collect_details_eq [OF assms(4), of py "[]"] by simp
  have "validation_failure py (PDict error_data) =
        Inl (Exn ValueError
               (message @
                (if node_error_pairs node_errors = [] then []
                 else '':'' @ newline @
                      join newline (map (\<lambda>p. bullet @ pair_line py p)
                                        (node_error_pairs node_errors)))))"
    unfolding validation_failure_def top_level_message_step [OF assms(5)]
    by (simp add: assms(3) details comp_def del: pair_line.simps)
  then show ?thesis
    by (simp add: queue_workflow_def assms(1,2) is_JSONDecodeError_def Let_def)
qed

theorem validation_detail_lines_witness:
  "queue_workflow example_python (Inr rejected_response) =
     Inl (Exn ValueError
       (''Prompt outputs failed validation:'' @ newline
        @ bullet @ ''Node 3 (errors): bad seed'' @ newline
        @ bullet @ ''Node 3 (class_type): KSampler'' @ newline
        @ bullet @ ''Node 7 (errors): missing input''))"
proof -
  let ?node_errors =
    "[(''3'', PDict [(''errors'', PStr ''bad seed''), (''class_type'', PStr ''KSampler'')]),
      (''7'', PDict [(''errors'', PStr ''missing input'')])]"
  let ?error_data =
    "[(''error'', PDict [(''type'', PStr ''prompt_outputs_failed_validation''),
                         (''message'', PStr ''Prompt outputs failed validation'')]),
      (''node_errors'', PDict ?node_errors)]"
  have 1: "status_code rejected_response = 400" by (simp add: rejected_response_def)
  have 2: "body_json rejected_response = Inr (PDict ?error_data)"
    by (simp add: rejected_response_def)
  have 3: "map_of ?error_data ''node_errors'' = Some (PDict ?node_errors)" by simp
  have 4: "\<forall>kv \<in> set ?node_errors. is_dict (snd kv)" by (simp add: is_dict_def)
  have 5: "top_level_message example_python ?error_data = Some ''Prompt outputs failed validation''"
    by (simp add: top_level_message_def)
  from validation_detail_lines [OF 1 2 3 4 5]
  show ?thesis by (simp add: node_error_pairs_def)
qed

lemma check_images_find:
  "check_images imgs =
     (case List.find (\<lambda>img. image_fault img \<noteq> None) imgs of
        None \<Rightarrow> None
      | Some img \<Rightarrow> image_fault img)"
  by (induction imgs rule: check_images.induct) (simp_all add: image_fault_def)

lemma validate_fields_verdict:
  "validate_fields (PDict job_input) = Inr (verdict job_input)"
proof (cases "map_of job_input ''workflow''")
  case None
  then show ?thesis by (simp add: validate_fields_def verdict_def input_fault_def)
next
  case (Some workflow)
  show ?thesis
  proof (cases workflow)
    case (PDict nodes)
    show ?thesis
    proof (cases "nodes = []")
      case True
      with Some PDict show ?thesis by (simp add: validate_fields_def verdict_def input_fault_def)
    next
      case False
      show ?thesis
      proof (cases "map_of job_input ''images''")
        case None
        with Some PDict False show ?thesis
          by (simp add: validate_fields_def verdict_def input_fault_def)
      next
        case images: (Some images)
        show ?thesis
        proof (cases images)
          case (PList imgs)
          with Some PDict False images show ?thesis
            by (simp add: validate_fields_def verdict_def input_fault_def check_images_find
                  split: option.splits)
        qed (use Some PDict False images in
              \<open>simp_all add: validate_fields_def verdict_def input_fault_def\<close>)
      qed
    qed
  qed (use Some in \<open>simp_all add: validate_fields_def verdict_def input_fault_def\<close>)
qed

text \<open>
  Claim C10: a job input that is a string is parsed as JSON. When the parsed value is an
  object, validation gives for the string what it gives for that object supplied
  directly, namely the verdict on the object: its fault with \<open>None\<close> for the data, or the
  workflow and the images with \<open>None\<close> for the message. When the string is not JSON the
  result is the error \<open>Invalid JSON format in input\<close>.
\<close>

theorem validate_input_string:
  "(json_loads py s = Inr (PDict job_input) \<longrightarrow>
      validate_input py (PStr s) = Inr (verdict job_input)
      \<and> validate_input py (PDict job_input) = Inr (verdict job_input))
   \<and> (\<forall>e. json_loads py s = Inl e \<and> is_JSONDecodeError e \<longrightarrow>
      validate_input py (PStr s) = Inr (PNone, PStr ''Invalid JSON format in input''))"
  by (simp add: validate_input_def validate_fields_verdict)

theorem validate_input_string_witness:
  "validate_input example_python (PStr empty_workflow_text)
     = Inr (PNone, PStr '''workflow' cannot be empty'')
   \<and> validate_input example_python (PStr good_workflow_text)
     = Inr (PDict [(''workflow'', PDict [(''3'', PDict [(''class_type'', PStr ''KSampler'')])]),
                   (''images'', PNone)], PNone)
   \<and> validate_input example_python (PStr ''workflow'')
     = Inr (PNone, PStr ''Invalid JSON format in input'')"
proof (intro conjI)
  have v1: "verdict [(''workflow'', PDict [])] = (PNone, PStr '''workflow' cannot be empty'')"
    by (simp add: verdict_def input_fault_def)
  from validate_input_string [of example_python empty_workflow_text "[(''workflow'', PDict [])]"]
    loads_empty_workflow_text v1
  show "validate_input example_python (PStr empty_workflow_text)
        = Inr (PNone, PStr '''workflow' cannot be empty'')"
    by simp
  have v2: "verdict [(''workflow'', PDict [(''3'', PDict [(''class_type'', PStr ''KSampler'')])])]
            = (PDict [(''workflow'', PDict [(''3'', PDict [(''class_type'', PStr ''KSampler'')])]),
                      (''images'', PNone)], PNone)"
    by (simp add: verdict_def input_fault_def)
  from validate_input_string [of example_python good_workflow_text
        "[(''workflow'', PDict [(''3'', PDict [(''class_type'', PStr ''KSampler'')])])]"]
    loads_good_workflow_text v2
  show "validate_input example_python (PStr good_workflow_text)
        = Inr (PDict [(''workflow'', PDict [(''3'', PDict [(''class_type'', PStr ''KSampler'')])]),
                      (''images'', PNone)], PNone)"
    by simp
  have bad: "json_loads example_python ''workflow'' = Inl (Exn JSONDecodeError ''Expecting value'')"
    by (simp add: example_python_def json_table_def example_texts)
  have dec: "is_JSONDecodeError (Exn JSONDecodeError ''Expecting value'')"
    by (simp add: is_JSONDecodeError_def)
  from validate_input_string [of example_python "''workflow''"] bad dec
  show "validate_input example_python (PStr ''workflow'')
        = Inr (PNone, PStr ''Invalid JSON format in input'')"
    by blast
qed


section \<open>Properties of the poll monitor\<close>

lemma poll_once_resolved:
  assumes "left_queue py X r" and "in_history X r"
  shows "poll_once py X r = Inr True"
proof -
  from assms(1) obtain items where items: "queue_items r = Some items"
    and none: "\<forall>item \<in> set items. \<not> is_substring X (py_str py item)"
    by (auto simp add: left_queue_def split: option.splits)
  from items obtain resp q pending running where
    resp: "queue_got r = Inr resp" and q: "body_json resp = Inr (PDict q)"
    and pending: "list_or_absent (map_of q ''queue_pending'') = Some pending"
    and running: "list_or_absent (map_of q ''queue_running'') = Some running"
    and eq: "items = pending @ running"
    by (auto simp add: queue_items_def split: sum.splits pyval.splits option.splits)
  from pending have p: "py_get (PDict q) ''queue_pending'' (PList []) = Inr (PList pending)"
    by (auto simp add: list_or_absent_def split: option.splits pyval.splits)
  from running have rn: "py_get (PDict q) ''queue_running'' (PList []) = Inr (PList running)"
    by (auto simp add: list_or_absent_def split: option.splits pyval.splits)
  from none eq have nq: "\<not> in_queue py X (pending @ running)"
    by (simp add: in_queue_def list_ex_iff)
  from assms(2) obtain history where h: "get_history (history_got r) = Inr history"
    and c: "py_contains history X = Inr True"
    by (auto simp add: in_history_def split: sum.splits)
  show ?thesis
    unfolding poll_once_def
    by (simp add: resp q p rn nq h c del: py_get.simps)
qed

lemma poll_once_still_queued:
  assumes "still_queued py X r"
  shows "poll_once py X r = Inr False"
proof -
  from assms(1) obtain items where items: "queue_items r = Some items"
    and some: "\<exists>item \<in> set items. is_substring X (py_str py item)"
    by (auto simp add: still_queued_def split: option.splits)
  from items obtain resp q pending running where
    resp: "queue_got r = Inr resp" and q: "body_json resp = Inr (PDict q)"
    and pending: "list_or_absent (map_of q ''queue_pending'') = Some pending"
    and running: "list_or_absent (map_of q ''queue_running'') = Some running"
    and eq: "items = pending @ running"
    by (auto simp add: queue_items_def split: sum.splits pyval.splits option.splits)
  from pending have p: "py_get (PDict q) ''queue_pending'' (PList []) = Inr (PList pending)"
    by (auto simp add: list_or_absent_def split: option.splits pyval.splits)
  from running have rn: "py_get (PDict q) ''queue_running'' (PList []) = Inr (PList running)"
    by (auto simp add: list_or_absent_def split: option.splits pyval.splits)
  from some eq have nq: "in_queue py X (pending @ running)"
    by (simp add: in_queue_def list_ex_iff)
  show ?thesis
    unfolding poll_once_def
    by (simp add: resp q p rn nq del: py_get.simps)
qed

lemma poll_once_not_in_history:
  assumes "\<not> in_history X r"
  shows "poll_once py X r \<noteq> Inr True"
  using assms unfolding poll_once_def in_history_def and_then_def
  by (auto split: sum.splits)

lemma polling_loop_resolved:
  assumes "\<forall>q \<in> set pre. elapsed q < of_int timeout"
    and "elapsed r < of_int timeout" and "poll_once py X r = Inr True"
  shows "polling_loop py X timeout errors (pre @ r # post) = Returned (True, errors)"
  using assms(1)
proof (induction pre)
  case Nil
  from assms(2,3) show ?case by simp
next
  case (Cons q pre)
  then have "elapsed q < of_int timeout"
    and IH: "polling_loop py X timeout errors (pre @ r # post) = Returned (True, errors)"
    by simp_all
  then show ?case by (simp split: sum.split bool.split)
qed

lemma polling_loop_timeout:
  assumes "\<forall>q \<in> set pre. poll_once py X q \<noteq> Inr True"
    and "of_int timeout \<le> elapsed r"
  shows "polling_loop py X timeout errors (pre @ r # post)
         = Returned (False, errors @ [timeout_message timeout])"
  using assms(1)
proof (induction pre)
  case Nil
  from assms(2) show ?case by (simp add: timeout_message_def)
next
  case (Cons q pre)
  then have "poll_once py X q \<noteq> Inr True"
    and IH: "polling_loop py X timeout errors (pre @ r # post)
             = Returned (False, errors @ [timeout_message timeout])"
    by simp_all
  then show ?case by (simp add: timeout_message_def split: sum.split bool.split)
qed

text \<open>
  Claim C6. For a run of \<open>process_with_polling\<close> for the prompt \<open>X\<close>: if the rounds up to
  and including a round \<open>r\<close> are tested within the timeout, and in round \<open>r\<close> no item of
  the pending and running lists mentions \<open>X\<close> while the history record contains \<open>X\<close>, the
  monitor returns \<open>(True, [])\<close>. If in every round before \<open>r\<close> the prompt is still queued or
  not in the history, and round \<open>r\<close> is tested at or past the timeout, the monitor returns
  \<open>False\<close> with the timeout message as its only error.
\<close>

theorem poll_monitor_outcomes:
  "((\<forall>q \<in> set pre. elapsed q < of_int timeout) \<and> elapsed r < of_int timeout
      \<and> left_queue py X r \<and> in_history X r
     \<longrightarrow> process_with_polling py X timeout (pre @ r # post) = Returned (True, []))
   \<and> ((\<forall>q \<in> set pre. still_queued py X q \<or> \<not> in_history X q) \<and> of_int timeout \<le> elapsed r
     \<longrightarrow> process_with_polling py X timeout (pre @ r # post)
         = Returned (False, [timeout_message timeout]))"
proof (intro conjI impI)
  assume a: "(\<forall>q \<in> set pre. elapsed q < of_int timeout) \<and> elapsed r < of_int timeout
             \<and> left_queue py X r \<and> in_history X r"
  then have "poll_once py X r = Inr True" by (simp add: poll_once_resolved)
  with a show "process_with_polling py X timeout (pre @ r # post) = Returned (True, [])"
    unfolding process_with_polling_def by (simp add: polling_loop_resolved)
next
  assume a: "(\<forall>q \<in> set pre. still_queued py X q \<or> \<not> in_history X q) \<and> of_int timeout \<le> elapsed r"
  have "\<forall>q \<in> set pre. poll_once py X q \<noteq> Inr True"
  proof
    fix q assume "q \<in> set pre"
    with a have "still_queued py X q \<or> \<not> in_history X q" by blast
    then show "poll_once py X q \<noteq> Inr True"
      using poll_once_still_queued [of py X q] poll_once_not_in_history [of X q py] by auto
  qed
  with a have "polling_loop py X timeout [] (pre @ r # post)
               = Returned (False, [] @ [timeout_message timeout])"
    by (intro polling_loop_timeout) simp_all
  then show "process_with_polling py X timeout (pre @ r # post)
             = Returned (False, [timeout_message timeout])"
    unfolding process_with_polling_def by simp
qed

lemma str_abc_running: "py_str example_python abc_running = ''[0, 'abc']''"
  by (simp add: abc_running_def example_python_def repr_table_def)

lemma round_running_queued: "still_queued example_python ''abc'' round_running"
  by (simp add: still_queued_def queue_items_def round_running_def json_response_def
        list_or_absent_def str_abc_running)

lemma round_finished_left: "left_queue example_python ''abc'' round_finished"
  by (simp add: left_queue_def queue_items_def round_finished_def json_response_def
        list_or_absent_def)

lemma round_finished_in_history: "in_history ''abc'' round_finished"
  by (simp add: in_history_def get_history_def round_finished_def json_response_def
        raise_for_status_def)

theorem poll_monitor_outcomes_witness:
  "process_with_polling example_python ''abc'' 600 ([round_running] @ round_finished # [round_late])
     = Returned (True, [])
   \<and> process_with_polling example_python ''abc'' 600 ([round_running] @ round_late # [])
     = Returned (False, [''Workflow execution timed out after 600 seconds''])"
proof
  have e: "\<forall>q \<in> set [round_running]. elapsed q < of_int 600"
    by (simp add: round_running_def)
  have f: "elapsed round_finished < of_int 600" by (simp add: round_finished_def)
  from e f round_finished_left round_finished_in_history
  show "process_with_polling example_python ''abc'' 600 ([round_running] @ round_finished # [round_late])
        = Returned (True, [])"
    using poll_monitor_outcomes [of "[round_running]" 600 round_finished example_python "''abc''"
        "[round_late]"]
    by blast
  have q: "\<forall>q \<in> set [round_running]. still_queued example_python ''abc'' q \<or> \<not> in_history ''abc'' q"
    using round_running_queued by simp
  have l: "of_int 600 \<le> elapsed round_late" by (simp add: round_late_def)
  have m: "timeout_message 600 = ''Workflow execution timed out after 600 seconds''"
    by code_simp
  from q l
  have "process_with_polling example_python ''abc'' 600 ([round_running] @ round_late # [])
        = Returned (False, [timeout_message 600])"
    using poll_monitor_outcomes [of "[round_running]" 600 round_late example_python "''abc''" "[]"]
    by blast
  with m show "process_with_polling example_python ''abc'' 600 ([round_running] @ round_late # [])
        = Returned (False, [''Workflow execution timed out after 600 seconds''])"
    by simp
qed


section \<open>Properties of the orchestrator\<close>

lemma apfst_append_Nil [simp]: "apfst ((@) []) p = p"
  by (cases p) simp

lemma then_do_ok [simp]: "then_do (ok x) f = f x"
  by (simp add: ok_def)

lemma then_do_returning [simp]: "then_do (returning v) f = returning v"
  by (simp add: returning_def)

lemma then_do_raising [simp]: "then_do (raising e) f = raising e"
  by (simp add: raising_def)

lemma then_do_logger [simp]: "then_do (logger l text) f = apfst ((#) (Log l text)) (f ())"
  by (cases "f ()") (simp add: logger_def)

lemma then_do_emit [simp]: "then_do (emit c) f = apfst ((#) c) (f ())"
  by (cases "f ()") (simp add: emit_def)

lemma then_do_apfst [simp]: "then_do (apfst ((#) a) m) f = apfst ((#) a) (then_do m f)"
proof (cases m)
  case (Pair es c)
  then show ?thesis by (cases c; cases "f (case c of Next x \<Rightarrow> x)") simp_all
qed

lemma catching_apfst [simp]: "catching (apfst ((#) a) m) h = apfst ((#) a) (catching m h)"
proof (cases m)
  case (Pair es c)
  then show ?thesis by (cases c; cases "h (case c of Raise e \<Rightarrow> e)") simp_all
qed

lemma compute_Inr [simp]: "compute (Inr x) = ok x"
  by (simp add: compute_def)

lemma compute_Inl [simp]: "compute (Inl e) = raising e"
  by (simp add: compute_def)

lemma call_Inr [simp]: "call c (Inr x) = ([c], Next x)"
  by (simp add: call_def ok_def)

lemma call_Inl [simp]: "call c (Inl e) = ([c], Raise e)"
  by (simp add: call_def raising_def)

lemma snd_then_do:
  "snd (then_do m f) =
     (case snd m of
        Next x \<Rightarrow> snd (f x)
      | Return v \<Rightarrow> Return v
      | Raise e \<Rightarrow> Raise e
      | Wait \<Rightarrow> Wait
      | Outside_model \<Rightarrow> Outside_model)"
proof (cases m)
  case (Pair es c)
  then show ?thesis by (cases c) simp_all
qed

lemma snd_catching_Next:
  "snd m = Next x \<Longrightarrow> snd (catching m h) = Next x"
  by (cases m) simp

lemma image_fault_text: "image_fault img = Some msg \<Longrightarrow> msg \<noteq> []"
  by (auto simp add: image_fault_def split: pyval.splits if_splits)

lemma find_faulty:
  "list_ex (\<lambda>img. image_fault img \<noteq> None) imgs \<Longrightarrow>
   \<exists>img msg. List.find (\<lambda>img. image_fault img \<noteq> None) imgs = Some img \<and> image_fault img = Some msg"
  by (induction imgs) auto

lemma malformed_fault:
  assumes "malformed job_input"
  shows "\<exists>msg. msg \<noteq> [] \<and> input_fault job_input = Some msg"
proof (cases "map_of job_input ''workflow''")
  case None
  then show ?thesis by (simp add: input_fault_def)
next
  case (Some workflow)
  show ?thesis
  proof (cases workflow)
    case (PDict nodes)
    show ?thesis
    proof (cases "nodes = []")
      case True
      with Some PDict show ?thesis by (simp add: input_fault_def)
    next
      case False
      with assms Some PDict have i: "images_not_list job_input \<or> image_entry_faulty job_input"
        by (simp add: malformed_def missing_workflow_def workflow_not_object_def workflow_empty_def)
      show ?thesis
      proof (cases "map_of job_input ''images''")
        case None
        with i show ?thesis by (simp add: images_not_list_def image_entry_faulty_def)
      next
        case images: (Some images)
        show ?thesis
        proof (cases images)
          case (PList imgs)
          with i images have "list_ex (\<lambda>img. image_fault img \<noteq> None) imgs"
            by (simp add: images_not_list_def image_entry_faulty_def)
          then obtain img msg where
            "List.find (\<lambda>img. image_fault img \<noteq> None) imgs = Some img" "image_fault img = Some msg"
            using find_faulty by blast
          with Some PDict False images PList show ?thesis
            by (simp add: input_fault_def image_fault_text)
        next
          case PNone
          with i images show ?thesis by (simp add: images_not_list_def image_entry_faulty_def)
        qed (use Some PDict False images in \<open>simp_all add: input_fault_def\<close>)
      qed
    qed
  qed (use Some in \<open>simp_all add: input_fault_def\<close>)
qed

lemma verdict_fault: "input_fault job_input = Some msg \<Longrightarrow> verdict job_input = (PNone, PStr msg)"
  by (simp add: verdict_def)

lemma validate_input_object:
  "input_object py supplied = Some job_input \<Longrightarrow>
   validate_input py supplied = Inr (verdict job_input)"
  by (auto simp add: input_object_def validate_input_def validate_fields_verdict
        split: pyval.splits sum.splits)

text \<open>
  Claim C8: a job input that is an object, or a string that parses to one, and is
  malformed --- the workflow missing, not an object or empty, \<open>images\<close> not a list, or an
  image entry that is not an object with the keys \<open>name\<close> and \<open>image\<close> --- makes
  \<open>validate_input\<close> return the message of its fault, and the handler return that message
  as its error after logging one line, without a call that reaches outside the process.
\<close>

theorem malformed_input_rejected:
  assumes "py_get job ''input'' (PDict []) = Inr supplied"
    and "input_object py supplied = Some job_input" and "malformed job_input"
  shows "\<exists>msg. msg \<noteq> [] \<and> input_fault job_input = Some msg
           \<and> validate_input py supplied = Inr (PNone, PStr msg)
           \<and> snd (handler py env job) = Return (PDict [(''error'', PStr msg)])
           \<and> outside_calls (fst (handler py env job)) = []"
proof -
  from assms(3) obtain msg where msg: "msg \<noteq> []" and fault: "input_fault job_input = Some msg"
    using malformed_fault by blast
  have v: "validate_input py supplied = Inr (PNone, PStr msg)"
    using assms(2) fault by (simp add: validate_input_object verdict_fault)
  from assms(1) obtain kvs where job: "job = PDict kvs" by (cases job) simp_all
  then obtain job_id where id: "py_get job ''id'' (PStr ''unknown'') = Inr job_id" by simp
  from msg have t: "truthy (PStr msg)" by simp
  have a: "accept py env job
           = ([Log INFO (''Processing job: '' @ py_str py job_id)],
              Return (PDict [(''error'', PStr msg)]))"
    unfolding accept_def
    by (simp only: assms(1) id v compute_Inr then_do_ok then_do_logger prod.case t if_True
          then_do_returning)
       (simp add: returning_def)
  then have h: "handler py env job
           = ([Log INFO (''Processing job: '' @ py_str py job_id)],
              Return (PDict [(''error'', PStr msg)]))"
    by (simp add: handler_def)
  from msg fault v h show ?thesis
    by (simp add: outside_calls_def is_log_def)
qed

theorem malformed_input_rejected_witness:
  "snd (handler example_python (engine no_outputs None)
          (PDict [(''id'', PStr ''job-2''),
                  (''input'', PDict [(''workflow'', PDict [(''3'', PDict [])]),
                                     (''images'', PList [PDict [(''name'', PStr ''a.png'')]])])]))
   = Return (PDict [(''error'', PStr '''images' must contain objects with 'name' and 'image' keys'')])
   \<and> outside_calls (fst (handler example_python (engine no_outputs None)
          (PDict [(''id'', PStr ''job-2''),
                  (''input'', PDict [(''workflow'', PDict [(''3'', PDict [])]),
                                     (''images'', PList [PDict [(''name'', PStr ''a.png'')]])])])))
     = []
   \<and> snd (handler example_python (engine no_outputs None)
          (PDict [(''id'', PStr ''job-3''), (''input'', PStr empty_workflow_text)]))
     = Return (PDict [(''error'', PStr '''workflow' cannot be empty'')])
   \<and> outside_calls (fst (handler example_python (engine no_outputs None)
          (PDict [(''id'', PStr ''job-3''), (''input'', PStr empty_workflow_text)])))
     = []"
proof -
  let ?input = "[(''workflow'', PDict [(''3'', PDict [])]),
                 (''images'', PList [PDict [(''name'', PStr ''a.png'')]])]"
  let ?job = "PDict [(''id'', PStr ''job-2''), (''input'', PDict ?input)]"
  have i: "py_get ?job ''input'' (PDict []) = Inr (PDict ?input)" by simp
  have o: "input_object example_python (PDict ?input) = Some ?input"
    by (simp add: input_object_def)
  have m: "malformed ?input"
    by (simp add: malformed_def image_entry_faulty_def image_fault_def)
  have f: "input_fault ?input = Some '''images' must contain objects with 'name' and 'image' keys''"
    by (simp add: input_fault_def image_fault_def)
  let ?job' = "PDict [(''id'', PStr ''job-3''), (''input'', PStr empty_workflow_text)]"
  have i': "py_get ?job' ''input'' (PDict []) = Inr (PStr empty_workflow_text)" by simp
  have o': "input_object example_python (PStr empty_workflow_text) = Some [(''workflow'', PDict [])]"
    by (simp add: input_object_def loads_empty_workflow_text)
  have m': "malformed [(''workflow'', PDict [])]"
    by (simp add: malformed_def workflow_empty_def)
  have f': "input_fault [(''workflow'', PDict [])] = Some '''workflow' cannot be empty''"
    by (simp add: input_fault_def)
  from malformed_input_rejected [OF i o m, of "engine no_outputs None"] f
    malformed_input_rejected [OF i' o' m', of "engine no_outputs None"] f'
  show ?thesis by auto
qed

lemma first_attempt_200:
  assumes "get 0 = Response 200" and "0 < retries"
  shows "check_server py get retries delay = Inr True"
proof -
  from assms(2) obtain k where "nat retries = Suc k"
    by (metis Suc_pred' zero_less_nat_eq)
  with assms(1) show ?thesis by (simp add: check_server_def check_attempt_def)
qed

lemma accept_example:
  "accept example_python (engine outputs bucket) example_job =
     ([Log INFO ''Processing job: job-1'', Server_start, Server_probe],
      Next (PStr ''job-1'', PDict [(''3'', PDict [(''class_type'', PStr ''KSampler'')])]))"
proof -
  have v: "validate_input example_python
             (PDict [(''workflow'', PDict [(''3'', PDict [(''class_type'', PStr ''KSampler'')])])])
           = Inr (PDict [(''workflow'', PDict [(''3'', PDict [(''class_type'', PStr ''KSampler'')])]),
                         (''images'', PNone)], PNone)"
    by (simp add: validate_input_def validate_fields_verdict verdict_def input_fault_def)
  have s: "start_comfyui_server example_python (engine outputs bucket) = Inr ()"
    by (simp add: start_comfyui_server_def engine_def)
  have c: "check_server example_python (reachable_probe (engine outputs bucket))
             COMFY_API_AVAILABLE_MAX_RETRIES COMFY_API_AVAILABLE_INTERVAL_MS = Inr True"
    by (rule first_attempt_200) (simp_all add: engine_def COMFY_API_AVAILABLE_MAX_RETRIES_def)
  show ?thesis
    unfolding accept_def example_job_def
    by (simp add: v s c ok_def)
qed

lemma websocket_example:
  "process_with_websocket example_python 5 always_connects
     [Received (Text completion_abc_text)] ''abc'' = Returned (True, [])"
  by (simp add: process_with_websocket_def always_connects_def loop_body_def
        loads_completion_abc_text on_message_def)

lemma outputs_example:
  "outputs_of_prompt example_python (engine outputs bucket) =
     ([Log INFO ''Queuing workflow...'', Workflow_submission,
       Log INFO ''Workflow queued with prompt_id: abc'', Stream_monitoring,
       Log INFO ''Fetching history for prompt abc...'', History_fetch],
      Next (''abc'', [], outputs))"
proof -
  have q: "queue_workflow example_python (prompt_post (engine outputs bucket))
           = Inr (PDict [(''prompt_id'', PStr ''abc'')])"
    by (simp add: queue_workflow_def engine_def json_response_def raise_for_status_def)
  have s: "submit example_python (engine outputs bucket)
           = ([Log INFO ''Queuing workflow...'', Workflow_submission,
               Log INFO ''Workflow queued with prompt_id: abc''], Next ''abc'')"
    by (simp add: submit_def q ok_def)
  have m: "monitor example_python (engine outputs bucket) ''abc''
           = ([Stream_monitoring], Next (True, []))"
    by (simp add: monitor_def engine_def websocket_example from_outcome_def ok_def)
  have h: "get_history (history_get (engine outputs bucket))
           = Inr (PDict [(''abc'', PDict [(''outputs'', outputs)])])"
    by (simp add: get_history_def engine_def history_of_def json_response_def raise_for_status_def)
  show ?thesis
    unfolding outputs_of_prompt_def
    by (simp add: s m h ok_def)
qed

lemma build_result_nothing:
  "snd (build_result py [] []) =
     Return (PDict [(''status'', PStr ''success_no_images''), (''images'', PList [])])"
  by (simp add: build_result_def returning_def)

lemma build_result_errors_only:
  "errors \<noteq> [] \<Longrightarrow>
   snd (build_result py [] errors) =
     Return (PDict [(''error'', PStr ''Job processing failed''),
                    (''details'', PList (map PStr errors))])"
  by (simp add: build_result_def returning_def)

lemma snd_handle_exceptions_Next:
  "snd m = Next x \<Longrightarrow> snd (handle_exceptions m) = Next x"
  unfolding handle_exceptions_def by (rule snd_catching_Next)

lemma snd_handler:
  assumes "snd (accept py env job) = Next (job_id, workflow)"
    and "snd (outputs_of_prompt py env) = Next (X, errors, outputs)"
    and "snd (collect_outputs py env job_id X errors outputs) = Next (output_data, errors')"
  shows "snd (handler py env job) = snd (build_result py output_data errors')"
proof -
  from assms(2,3)
  have "snd (then_do (outputs_of_prompt py env) (\<lambda>(X, errors, outputs).
               collect_outputs py env job_id X errors outputs)) = Next (output_data, errors')"
    by (simp add: snd_then_do)
  then have "snd (handle_exceptions
               (then_do (outputs_of_prompt py env) (\<lambda>(X, errors, outputs).
                  collect_outputs py env job_id X errors outputs))) = Next (output_data, errors')"
    by (rule snd_handle_exceptions_Next)
  with assms(1) show ?thesis
    by (simp add: handler_def snd_then_do)
qed

lemma collect_outputs_nothing_added:
  assumes "nodes \<noteq> []"
    and "snd (collect_nodes py env job_id nodes ([], [], 0)) = Next ([], [], k)"
  shows "snd (collect_outputs py env job_id X [] (PDict nodes)) = Next ([], [])"
  using assms by (simp add: collect_outputs_def snd_then_do ok_def)

lemma collect_outputs_no_outputs:
  "snd (collect_outputs py env job_id X [] (PDict []))
   = Next ([], [''Workflow produced no outputs''])"
  by (simp add: collect_outputs_def snd_then_do ok_def)

text \<open>
  Claim C2, as the code has it. Take a job that gets as far as the outputs of its history
  record with no error recorded, the outputs being an object. If the object has entries
  and the collection pass adds no artifact and no error, the response is the success
  variant with status \<open>success_no_images\<close> and an empty list of images. If the object is
  empty, the guard before the collection pass records \<open>Workflow produced no outputs\<close>, and
  the response is the error \<open>Job processing failed\<close> with that one detail.
\<close>

theorem no_artifacts_outcome:
  assumes "snd (accept py env job) = Next (job_id, workflow)"
    and "snd (outputs_of_prompt py env) = Next (X, [], PDict nodes)"
  shows "(nodes \<noteq> [] \<and> snd (collect_nodes py env job_id nodes ([], [], 0)) = Next ([], [], k)
            \<longrightarrow> snd (handler py env job)
                = Return (PDict [(''status'', PStr ''success_no_images''), (''images'', PList [])]))
       \<and> (nodes = []
            \<longrightarrow> snd (handler py env job)
                = Return (PDict [(''error'', PStr ''Job processing failed''),
                                 (''details'', PList [PStr ''Workflow produced no outputs''])]))"
proof (intro conjI impI)
  assume "nodes \<noteq> [] \<and> snd (collect_nodes py env job_id nodes ([], [], 0)) = Next ([], [], k)"
  then have "snd (collect_outputs py env job_id X [] (PDict nodes)) = Next ([], [])"
    by (simp add: collect_outputs_nothing_added)
  with assms have "snd (handler py env job) = snd (build_result py [] [])"
    by (rule snd_handler)
  then show "snd (handler py env job)
             = Return (PDict [(''status'', PStr ''success_no_images''), (''images'', PList [])])"
    by (simp add: build_result_nothing)
next
  assume "nodes = []"
  then have "snd (collect_outputs py env job_id X [] (PDict nodes))
             = Next ([], [''Workflow produced no outputs''])"
    by (simp add: collect_outputs_no_outputs)
  with assms have "snd (handler py env job)
                   = snd (build_result py [] [''Workflow produced no outputs''])"
    by (rule snd_handler)
  then show "snd (handler py env job)
             = Return (PDict [(''error'', PStr ''Job processing failed''),
                              (''details'', PList [PStr ''Workflow produced no outputs''])])"
    by (simp add: build_result_errors_only)
qed

lemma collect_preview_only:
  "collect_nodes example_python (engine preview_only None) (PStr ''job-1'')
     [(''9'', PDict [(''images'',
              PList [PDict [(''filename'', PStr ''ComfyUI_temp_00001_.png''),
                            (''subfolder'', PStr ''''), (''type'', PStr ''temp'')]])])]
     ([], [], 0)
   = ([Log INFO ''Skipping temp image: ComfyUI_temp_00001_.png''], Next ([], [], 0))"
  by (simp add: collect_node_def collect_image_def ok_def)

theorem no_artifacts_outcome_witness:
  "snd (handler example_python (engine preview_only None) example_job)
   = Return (PDict [(''status'', PStr ''success_no_images''), (''images'', PList [])])
   \<and> snd (handler example_python (engine no_outputs None) example_job)
   = Return (PDict [(''error'', PStr ''Job processing failed''),
                    (''details'', PList [PStr ''Workflow produced no outputs''])])"
proof
  let ?nodes = "[(''9'', PDict [(''images'',
              PList [PDict [(''filename'', PStr ''ComfyUI_temp_00001_.png''),
                            (''subfolder'', PStr ''''), (''type'', PStr ''temp'')]])])]"
  have a: "snd (accept example_python (engine preview_only None) example_job)
           = Next (PStr ''job-1'', PDict [(''3'', PDict [(''class_type'', PStr ''KSampler'')])])"
    by (simp add: accept_example)
  have b: "snd (outputs_of_prompt example_python (engine preview_only None))
           = Next (''abc'', [], PDict ?nodes)"
    by (simp add: outputs_example preview_only_def)
  have c: "?nodes \<noteq> [] \<and>
           snd (collect_nodes example_python (engine preview_only None) (PStr ''job-1'') ?nodes
                  ([], [], 0)) = Next ([], [], 0)"
    by (simp add: collect_preview_only del: collect_nodes.simps)
  from no_artifacts_outcome [OF a b, of 0] c
  show "snd (handler example_python (engine preview_only None) example_job)
        = Return (PDict [(''status'', PStr ''success_no_images''), (''images'', PList [])])"
    by blast
  have a': "snd (accept example_python (engine no_outputs None) example_job)
           = Next (PStr ''job-1'', PDict [(''3'', PDict [(''class_type'', PStr ''KSampler'')])])"
    by (simp add: accept_example)
  have b': "snd (outputs_of_prompt example_python (engine no_outputs None))
           = Next (''abc'', [], PDict [])"
    by (simp add: outputs_example no_outputs_def)
  from no_artifacts_outcome [OF a' b', of 0]
  show "snd (handler example_python (engine no_outputs None) example_job)
        = Return (PDict [(''error'', PStr ''Job processing failed''),
                         (''details'', PList [PStr ''Workflow produced no outputs''])])"
    by blast
qed

text \<open>
  Claim C2 as stated fails when the outputs of the history record are empty: the job is
  accepted, submitted and monitored to completion with no error, the collection pass
  has nothing to go through and so adds no artifact and no error, and yet the response is
  an error.
\<close>

theorem empty_outputs_counterexample:
  "snd (outputs_of_prompt example_python (engine no_outputs None)) = Next (''abc'', [], PDict [])
   \<and> collect_nodes example_python (engine no_outputs None) (PStr ''job-1'') [] ([], [], 0)
     = ([], Next ([], [], 0))
   \<and> handler example_python (engine no_outputs None) example_job
     = ([Log INFO ''Processing job: job-1'', Server_start, Server_probe,
         Log INFO ''Queuing workflow...'', Workflow_submission,
         Log INFO ''Workflow queued with prompt_id: abc'', Stream_monitoring,
         Log INFO ''Fetching history for prompt abc...'', History_fetch,
         Log WARNING ''No outputs found for prompt abc'',
         Log INFO ''Processing 0 output nodes...'',
         Log WARNING ''Job completed with errors: ['Workflow produced no outputs']'',
         Log ERROR ''Job failed with no output images''],
        Return (PDict [(''error'', PStr ''Job processing failed''),
                       (''details'', PList [PStr ''Workflow produced no outputs''])]))"
proof (intro conjI)
  show "snd (outputs_of_prompt example_python (engine no_outputs None))
        = Next (''abc'', [], PDict [])"
    by (simp add: outputs_example no_outputs_def)
  show "collect_nodes example_python (engine no_outputs None) (PStr ''job-1'') [] ([], [], 0)
        = ([], Next ([], [], 0))"
    by (simp add: ok_def)
  have z: "str_int 0 = ''0''" by code_simp
  have c: "collect_outputs example_python (engine no_outputs None) (PStr ''job-1'') ''abc'' []
             no_outputs
           = ([Log WARNING ''No outputs found for prompt abc'',
               Log INFO ''Processing 0 output nodes...''],
              Next ([], [''Workflow produced no outputs'']))"
    by (simp add: collect_outputs_def no_outputs_def z ok_def)
  have r: "py_str example_python (PList [PStr ''Workflow produced no outputs''])
           = ''['Workflow produced no outputs']''"
    by (simp add: example_python_def repr_table_def)
  have b: "build_result example_python [] [''Workflow produced no outputs'']
           = ([Log WARNING ''Job completed with errors: ['Workflow produced no outputs']'',
               Log ERROR ''Job failed with no output images''],
              Return (PDict [(''error'', PStr ''Job processing failed''),
                             (''details'', PList [PStr ''Workflow produced no outputs''])]))"
    by (simp add: build_result_def r returning_def del: py_str.simps)
  show "handler example_python (engine no_outputs None) example_job
     = ([Log INFO ''Processing job: job-1'', Server_start, Server_probe,
         Log INFO ''Queuing workflow...'', Workflow_submission,
         Log INFO ''Workflow queued with prompt_id: abc'', Stream_monitoring,
         Log INFO ''Fetching history for prompt abc...'', History_fetch,
         Log WARNING ''No outputs found for prompt abc'',
         Log INFO ''Processing 0 output nodes...'',
         Log WARNING ''Job completed with errors: ['Workflow produced no outputs']'',
         Log ERROR ''Job failed with no output images''],
        Return (PDict [(''error'', PStr ''Job processing failed''),
                       (''details'', PList [PStr ''Workflow produced no outputs''])]))"
    unfolding handler_def
    by (simp add: accept_example outputs_example c b handle_exceptions_def)
qed

text \<open>
  Claim C3 against the code. In the external-upload branch, when the scratch file has been
  written and \<open>rp_upload.upload_image\<close> raises, the branch ends with the scratch file
  created and not removed: the removal is skipped. The one line it logs names the failed
  upload and the file name of the image; the scratch file is not mentioned. The error is
  appended and the collector goes on.
\<close>

theorem bucket_upload_failure_keeps_scratch_file:
  assumes "rp_upload_import env k = None"
    and "named_temporary_file env k (if splitext_ext py name \<noteq> [] then splitext_ext py name else ''.png'')
         = Inr temp_path"
    and "write_scratch env k = None"
    and "upload_image env k = Inl e"
  shows "store_in_bucket py env job_id (PStr name) (output_data, errors, k)
         = ([Scratch_file_created temp_path, Bucket_upload job_id temp_path,
             Log ERROR (''S3 upload failed for '' @ name @ '': '' @ exn_str e)],
            Next (output_data, errors @ [''S3 upload failed: '' @ exn_str e], Suc k))"
proof -
  have u: "upload_scratch_file py env job_id (PStr name) k
           = ([Scratch_file_created temp_path, Bucket_upload job_id temp_path], Raise e)"
    using assms
    by (simp add: upload_scratch_file_def unless_raised_def py_splitext_ext_def Let_def ok_def)
  show ?thesis
    by (simp add: store_in_bucket_def u ok_def)
qed

lemma splitext_example: "splitext_ext example_python ''ComfyUI_00001_.png'' = ''.png''"
  by (simp add: example_python_def extension_table_def)

theorem bucket_upload_failure_keeps_scratch_file_witness:
  "store_in_bucket example_python (engine one_image (Some ''https://bucket.example''))
     (PStr ''job-1'') (PStr ''ComfyUI_00001_.png'') ([], [], 0)
   = ([Scratch_file_created ''/tmp/tmpk3x9.png'',
       Bucket_upload (PStr ''job-1'') ''/tmp/tmpk3x9.png'',
       Log ERROR ''S3 upload failed for ComfyUI_00001_.png: Access Denied''],
      Next ([], [''S3 upload failed: Access Denied''], 1))"
proof -
  let ?env = "engine one_image (Some ''https://bucket.example'')"
  have i: "rp_upload_import ?env 0 = None" by (simp add: engine_def)
  have t: "named_temporary_file ?env 0
             (if splitext_ext example_python ''ComfyUI_00001_.png'' \<noteq> []
              then splitext_ext example_python ''ComfyUI_00001_.png'' else ''.png'')
           = Inr ''/tmp/tmpk3x9.png''"
    by (simp add: splitext_example engine_def)
  have w: "write_scratch ?env 0 = None" by (simp add: engine_def)
  have f: "upload_image ?env 0 = Inl (Exn OtherException ''Access Denied'')"
    by (simp add: engine_def)
  from bucket_upload_failure_keeps_scratch_file [OF i t w f, of "PStr ''job-1''" "[]" "[]"]
  show ?thesis by simp
qed

lemma store_one_image:
  "store_in_bucket example_python (engine one_image (Some ''https://bucket.example''))
     (PStr ''job-1'') (PStr ''ComfyUI_00001_.png'') ([], [], 0)
   = ([Scratch_file_created ''/tmp/tmpk3x9.png'',
       Bucket_upload (PStr ''job-1'') ''/tmp/tmpk3x9.png'',
       Log ERROR ''S3 upload failed for ComfyUI_00001_.png: Access Denied''],
      Next ([], [''S3 upload failed: Access Denied''], 1))"
proof -
  have u: "upload_scratch_file example_python (engine one_image (Some ''https://bucket.example''))
             (PStr ''job-1'') (PStr ''ComfyUI_00001_.png'') 0
           = ([Scratch_file_created ''/tmp/tmpk3x9.png'',
               Bucket_upload (PStr ''job-1'') ''/tmp/tmpk3x9.png''],
              Raise (Exn OtherException ''Access Denied''))"
    by (simp add: upload_scratch_file_def unless_raised_def py_splitext_ext_def Let_def ok_def
          splitext_example engine_def)
  show ?thesis
    by (simp add: store_in_bucket_def u ok_def)
qed

lemma collect_one_image:
  "collect_nodes example_python (engine one_image (Some ''https://bucket.example'')) (PStr ''job-1'')
     [(''9'', PDict [(''images'',
              PList [PDict [(''filename'', PStr ''ComfyUI_00001_.png''),
                            (''subfolder'', PStr ''''), (''type'', PStr ''output'')]])])]
     ([], [], 0)
   = ([Image_fetch (PStr ''ComfyUI_00001_.png'') (PStr '''') (PStr ''output''),
       Scratch_file_created ''/tmp/tmpk3x9.png'',
       Bucket_upload (PStr ''job-1'') ''/tmp/tmpk3x9.png'',
       Log ERROR ''S3 upload failed for ComfyUI_00001_.png: Access Denied''],
      Next ([], [''S3 upload failed: Access Denied''], 1))"
proof -
  let ?env = "engine one_image (Some ''https://bucket.example'')"
  have g: "get_image_data (view_get ?env 0) = Some ''hello''"
    by (simp add: get_image_data_def engine_def json_response_def raise_for_status_def)
  have b: "bucket_configured ?env" by (simp add: bucket_configured_def engine_def)
  have c: "collect_image example_python ?env (PStr ''job-1'') ''9''
             (PDict [(''filename'', PStr ''ComfyUI_00001_.png''),
                     (''subfolder'', PStr ''''), (''type'', PStr ''output'')]) ([], [], 0)
           = ([Image_fetch (PStr ''ComfyUI_00001_.png'') (PStr '''') (PStr ''output''),
               Scratch_file_created ''/tmp/tmpk3x9.png'',
               Bucket_upload (PStr ''job-1'') ''/tmp/tmpk3x9.png'',
               Log ERROR ''S3 upload failed for ComfyUI_00001_.png: Access Denied''],
              Next ([], [''S3 upload failed: Access Denied''], 1))"
    by (simp add: collect_image_def g b store_one_image)
  show ?thesis
    by (simp add: collect_node_def c ok_def)
qed

text \<open>
  A whole job on which the claim fails: a bucket is configured, the history record has one
  stored image, the image is fetched and written to a scratch file, and the bucket refuses
  the upload. The handler answers with the error; of the scratch file the run records the
  creation and no removal, and no line of the log mentions it.
\<close>

theorem scratch_file_leak_counterexample:
  "handler example_python (engine one_image (Some ''https://bucket.example'')) example_job
   = ([Log INFO ''Processing job: job-1'', Server_start, Server_probe,
       Log INFO ''Queuing workflow...'', Workflow_submission,
       Log INFO ''Workflow queued with prompt_id: abc'', Stream_monitoring,
       Log INFO ''Fetching history for prompt abc...'', History_fetch,
       Log INFO ''Processing 1 output nodes...'',
       Image_fetch (PStr ''ComfyUI_00001_.png'') (PStr '''') (PStr ''output''),
       Scratch_file_created ''/tmp/tmpk3x9.png'',
       Bucket_upload (PStr ''job-1'') ''/tmp/tmpk3x9.png'',
       Log ERROR ''S3 upload failed for ComfyUI_00001_.png: Access Denied'',
       Log WARNING ''Job completed with errors: ['S3 upload failed: Access Denied']'',
       Log ERROR ''Job failed with no output images''],
      Return (PDict [(''error'', PStr ''Job processing failed''),
                     (''details'', PList [PStr ''S3 upload failed: Access Denied''])]))"
proof -
  let ?env = "engine one_image (Some ''https://bucket.example'')"
  have z: "str_int 1 = ''1''" by code_simp
  have c: "collect_outputs example_python ?env (PStr ''job-1'') ''abc'' [] one_image
           = ([Log INFO ''Processing 1 output nodes...'',
               Image_fetch (PStr ''ComfyUI_00001_.png'') (PStr '''') (PStr ''output''),
               Scratch_file_created ''/tmp/tmpk3x9.png'',
               Bucket_upload (PStr ''job-1'') ''/tmp/tmpk3x9.png'',
               Log ERROR ''S3 upload failed for ComfyUI_00001_.png: Access Denied''],
              Next ([], [''S3 upload failed: Access Denied'']))"
    by (simp add: collect_outputs_def one_image_def z collect_one_image [unfolded one_image_def]
          ok_def del: collect_nodes.simps)
  have r: "py_str example_python (PList [PStr ''S3 upload failed: Access Denied''])
           = ''['S3 upload failed: Access Denied']''"
    by (simp add: example_python_def repr_table_def)
  have b: "build_result example_python [] [''S3 upload failed: Access Denied'']
           = ([Log WARNING ''Job completed with errors: ['S3 upload failed: Access Denied']'',
               Log ERROR ''Job failed with no output images''],
              Return (PDict [(''error'', PStr ''Job processing failed''),
                             (''details'', PList [PStr ''S3 upload failed: Access Denied''])]))"
    by (simp add: build_result_def r returning_def del: py_str.simps)
  show ?thesis
    unfolding handler_def
    by (simp add: accept_example outputs_example c b handle_exceptions_def)
qed

end
